theory Spec2Isabelle
  imports Complex_Main
begin

section \<open>JavaScript values\<close>

text \<open>
  A JavaScript number is a real that a double holds, or one of the three non-finite
  values. The operations \<open>+ - * /\<close> on \<open>number\<close> give the exact result, and \<open>rnd\<close>
  below rounds it to the nearest double as IEEE 754 does after each operation. The
  functions whose results are read as numbers (the angle arithmetic of util.js, the
  slices of \<open>getItemAngles\<close>, \<open>spinToItem\<close>) round after each operation. A division
  by zero gives an infinity or \<open>NaN\<close>, \<open>NaN\<close> propagates and compares false with
  everything, and \<open>%\<close> is the remainder of the division truncated towards zero (its
  sign is the dividend's), which IEEE arithmetic computes without rounding. The sign
  of zero is not modelled: no comparison in the code tells \<open>-0\<close> from \<open>0\<close>.
\<close>

datatype number = Fin real | PosInf | NegInf | NaN

definition trunc :: "real \<Rightarrow> int" where
  "trunc x = (if 0 \<le> x then \<lfloor>x\<rfloor> else \<lceil>x\<rceil>)"

instantiation number :: "{plus, minus, uminus, times, inverse, modulo, ord}"
begin

fun uminus_number :: "number \<Rightarrow> number" where
  "uminus_number (Fin a) = Fin (- a)"
| "uminus_number PosInf = NegInf"
| "uminus_number NegInf = PosInf"
| "uminus_number NaN = NaN"

fun plus_number :: "number \<Rightarrow> number \<Rightarrow> number" where
  "plus_number (Fin a) (Fin b) = Fin (a + b)"
| "plus_number NaN _ = NaN"
| "plus_number _ NaN = NaN"
| "plus_number PosInf NegInf = NaN"
| "plus_number NegInf PosInf = NaN"
| "plus_number PosInf _ = PosInf"
| "plus_number _ PosInf = PosInf"
| "plus_number NegInf _ = NegInf"
| "plus_number _ NegInf = NegInf"

definition minus_number :: "number \<Rightarrow> number \<Rightarrow> number" where
  "minus_number a b = a + (- b)"

fun times_number :: "number \<Rightarrow> number \<Rightarrow> number" where
  "times_number (Fin a) (Fin b) = Fin (a * b)"
| "times_number NaN _ = NaN"
| "times_number _ NaN = NaN"
| "times_number (Fin a) PosInf = (if a = 0 then NaN else if 0 < a then PosInf else NegInf)"
| "times_number (Fin a) NegInf = (if a = 0 then NaN else if 0 < a then NegInf else PosInf)"
| "times_number PosInf (Fin b) = (if b = 0 then NaN else if 0 < b then PosInf else NegInf)"
| "times_number NegInf (Fin b) = (if b = 0 then NaN else if 0 < b then NegInf else PosInf)"
| "times_number PosInf PosInf = PosInf"
| "times_number PosInf NegInf = NegInf"
| "times_number NegInf PosInf = NegInf"
| "times_number NegInf NegInf = PosInf"

fun divide_number :: "number \<Rightarrow> number \<Rightarrow> number" where
  "divide_number (Fin a) (Fin b) =
     (if b = 0 then (if a = 0 then NaN else if 0 < a then PosInf else NegInf)
      else Fin (a / b))"
| "divide_number NaN _ = NaN"
| "divide_number _ NaN = NaN"
| "divide_number (Fin a) PosInf = Fin 0"
| "divide_number (Fin a) NegInf = Fin 0"
| "divide_number PosInf (Fin b) = (if 0 \<le> b then PosInf else NegInf)"
| "divide_number NegInf (Fin b) = (if 0 \<le> b then NegInf else PosInf)"
| "divide_number PosInf PosInf = NaN"
| "divide_number PosInf NegInf = NaN"
| "divide_number NegInf PosInf = NaN"
| "divide_number NegInf NegInf = NaN"

definition inverse_number :: "number \<Rightarrow> number" where
  "inverse_number (a::number) = (divide (Fin 1) a :: number)"

fun modulo_number :: "number \<Rightarrow> number \<Rightarrow> number" where
  "modulo_number (Fin a) (Fin b) =
     (if b = 0 then NaN else Fin (a - b * of_int (trunc (a / b))))"
| "modulo_number NaN _ = NaN"
| "modulo_number _ NaN = NaN"
| "modulo_number (Fin a) PosInf = Fin a"
| "modulo_number (Fin a) NegInf = Fin a"
| "modulo_number PosInf _ = NaN"
| "modulo_number NegInf _ = NaN"

fun less_number :: "number \<Rightarrow> number \<Rightarrow> bool" where
  "less_number (Fin a) (Fin b) = (a < b)"
| "less_number NaN _ = False"
| "less_number _ NaN = False"
| "less_number (Fin a) PosInf = True"
| "less_number (Fin a) NegInf = False"
| "less_number PosInf _ = False"
| "less_number NegInf NegInf = False"
| "less_number NegInf _ = True"

definition less_eq_number :: "number \<Rightarrow> number \<Rightarrow> bool" where
  "less_eq_number a b = (a < b \<or> (a = b \<and> a \<noteq> NaN))"

instance ..

end

text \<open>\<open>Math.min\<close> and \<open>Math.max\<close>: \<open>NaN\<close> if an argument is \<open>NaN\<close>.\<close>

definition Math_min :: "number \<Rightarrow> number \<Rightarrow> number" where
  "Math_min a b = (if a = NaN \<or> b = NaN then NaN else if a < b then a else b)"

definition Math_max :: "number \<Rightarrow> number \<Rightarrow> number" where
  "Math_max a b = (if a = NaN \<or> b = NaN then NaN else if a < b then b else a)"

text \<open>
  Rounding to a double (IEEE 754 binary64, round to nearest, ties to even). A double
  is a whole multiple of \<open>2 ^ (e - 52)\<close>, where \<open>e\<close> is the exponent of its binade,
  \<open>2 ^ e \<le> \<bar>x\<bar> < 2 ^ (e + 1)\<close>, and at least \<open>-1022\<close> (below that exponent the
  subnormal doubles keep the spacing \<open>2 ^ -1074\<close>). \<open>binade\<close> searches for the exponent
  upwards from \<open>-1022\<close>; a result that rounds to \<open>2 ^ 1024\<close> or more in magnitude is
  an infinity.
\<close>

definition round_even :: "real \<Rightarrow> int" where
  "round_even x =
     (let n = \<lfloor>x\<rfloor>; f = x - of_int n
      in if f < 1 / 2 then n else if 1 / 2 < f then n + 1 else if even n then n else n + 1)"

fun binade :: "nat \<Rightarrow> int \<Rightarrow> real \<Rightarrow> int" where
  "binade 0 e x = e"
| "binade (Suc n) e x = (if x < 2 powi (e + 1) then e else binade n (e + 1) x)"

definition expo :: "real \<Rightarrow> int" where
  "expo x = binade 2045 (- 1022) \<bar>x\<bar>"

definition fl :: "real \<Rightarrow> number" where
  "fl x =
     (let u = 2 powi (expo x - 52);
          y = of_int (round_even (x / u)) * u
      in if 2 ^ 1024 \<le> \<bar>y\<bar> then (if 0 < x then PosInf else NegInf) else Fin y)"

fun rnd :: "number \<Rightarrow> number" where
  "rnd (Fin x) = fl x"
| "rnd PosInf = PosInf"
| "rnd NegInf = NegInf"
| "rnd NaN = NaN"

text \<open>
  \<open>Number(f.toFixed(d))\<close>: the decimal with \<open>d\<close> digits nearest to \<open>f\<close>, a tie going
  away from zero; from \<open>10^21\<close> on \<open>toFixed\<close> prints the number itself.
\<close>

definition toFixed :: "nat \<Rightarrow> number \<Rightarrow> number" where
  "toFixed d f =
     (case f of
        Fin a \<Rightarrow>
          if 10 ^ 21 \<le> \<bar>a\<bar> then Fin a
          else if a < 0 then Fin (- (of_int (round (- a * 10 ^ d)) / 10 ^ d))
          else Fin (of_int (round (a * 10 ^ d)) / 10 ^ d)
      | _ \<Rightarrow> f)"

text \<open>
  The values a caller can assign to a property. An object is the list of its own
  fields; a function is known by an identifier only.
\<close>

datatype jsval =
    Undefined
  | Null
  | JBool bool
  | JNum number
  | JStr string
  | JArr "jsval list"
  | JObj "(string \<times> jsval) list"
  | JFun nat

fun typeof :: "jsval \<Rightarrow> string" where
  "typeof Undefined = ''undefined''"
| "typeof Null = ''object''"
| "typeof (JBool _) = ''boolean''"
| "typeof (JNum _) = ''number''"
| "typeof (JStr _) = ''string''"
| "typeof (JArr _) = ''object''"
| "typeof (JObj _) = ''object''"
| "typeof (JFun _) = ''function''"

fun isArray :: "jsval \<Rightarrow> bool" where
  "isArray (JArr _) = True"
| "isArray _ = False"

text \<open>
  The number held by a value. The code applies arithmetic and comparisons only to
  values it has tested with \<open>isNumber\<close> or \<open>typeof\<close>, so only the first equation
  is ever used.
\<close>

fun to_number :: "jsval \<Rightarrow> number" where
  "to_number (JNum n) = n"
| "to_number _ = NaN"

text \<open>Reading the field \<open>k\<close> of an object: \<open>undefined\<close> when it has none.\<close>

definition field :: "(string \<times> jsval) list \<Rightarrow> string \<Rightarrow> jsval" where
  "field fs k = (case map_of fs k of Some v \<Rightarrow> v | None \<Rightarrow> Undefined)"

section \<open>util.js\<close>

definition isAngleBetween :: "number \<Rightarrow> number \<Rightarrow> number \<Rightarrow> bool" where
  "isAngleBetween angle arcStart arcEnd =
     (if arcStart < arcEnd then arcStart \<le> angle \<and> angle < arcEnd
      else arcStart \<le> angle \<or> angle < arcEnd)"

text \<open>
  \<open>addAngle\<close> and \<open>diffAngle\<close>, each sum and difference rounded to a double.
\<close>

definition addAngle :: "number \<Rightarrow> number \<Rightarrow> number" where
  "addAngle a b =
     (let sum = rnd (a + b);
          result = (if Fin 0 < sum then sum mod Fin 360 else rnd (Fin 360 + (sum mod Fin 360)))
      in if result = Fin 360 then Fin 0 else result)"

definition diffAngle :: "number \<Rightarrow> number \<Rightarrow> number" where
  "diffAngle a b =
     (let offsetFrom180 = rnd (Fin 180 - b);
          aWithOffset = addAngle a offsetFrom180
      in rnd (Fin 180 - aWithOffset))"

text \<open>
  \<open>fixFloat\<close> is \<open>Number(f.toFixed(9))\<close>: the decimal of nine digits, read back as the
  nearest double.
\<close>

definition fixFloat :: "number \<Rightarrow> number" where
  "fixFloat f = rnd (toFixed 9 f)"

definition calcWheelRotationForTargetAngle :: "number \<Rightarrow> number \<Rightarrow> number \<Rightarrow> number" where
  "calcWheelRotationForTargetAngle currentRotation targetAngle direction =
     (let angle0 = rnd ((currentRotation mod Fin 360) + targetAngle) mod Fin 360;
          angle1 = fixFloat angle0;
          angle2 = rnd (if direction = Fin 1 then Fin 360 - angle1 else Fin 360 + angle1)
                     mod Fin 360;
          angle3 = rnd (angle2 * direction)
      in rnd (currentRotation + angle3))"

definition isObject :: "jsval \<Rightarrow> bool" where
  "isObject v = (typeof v = ''object'' \<and> \<not> isArray v \<and> v \<noteq> Null)"

fun isNumber :: "jsval \<Rightarrow> bool" where
  "isNumber (JNum n) = (n \<noteq> NaN)"
| "isNumber _ = False"

text \<open>
  \<open>setProp\<close> returns the value to store, or throws its message. The source's
  \<open>action ? action() : val\<close> is the thunk \<open>action\<close>: a setter that passes no action
  passes the thunk that returns \<open>val\<close>.
\<close>

definition setProp ::
  "jsval \<Rightarrow> bool \<Rightarrow> string \<Rightarrow> 'a \<Rightarrow> (unit \<Rightarrow> string + 'a) \<Rightarrow> string + 'a" where
  "setProp val isValid errorMessage defaultValue action =
     (if isValid then action ()
      else if val = Undefined then Inr defaultValue
      else Inl errorMessage)"

definition easeSinOut :: "number \<Rightarrow> number" where
  "easeSinOut n = (case n of Fin a \<Rightarrow> Fin (sin ((a * pi) / 2)) | _ \<Rightarrow> NaN)"


section \<open>constants.js\<close>


text \<open>The properties of an Item and of the Wheel, with \<open>Defaults.item\<close> and \<open>Defaults.wheel\<close>.\<close>

datatype item_prop =
    I_backgroundColor | I_image | I_imageOpacity | I_imageRadius | I_imageRotation
  | I_imageScale | I_label | I_labelColor | I_value | I_weight

fun Defaults_item :: "item_prop \<Rightarrow> jsval" where
  "Defaults_item I_backgroundColor = Null"
| "Defaults_item I_image = Null"
| "Defaults_item I_imageOpacity = JNum (Fin 1)"
| "Defaults_item I_imageRadius = JNum (Fin (1 / 2))"
| "Defaults_item I_imageRotation = JNum (Fin 0)"
| "Defaults_item I_imageScale = JNum (Fin 1)"
| "Defaults_item I_label = JStr []"
| "Defaults_item I_labelColor = Null"
| "Defaults_item I_value = Null"
| "Defaults_item I_weight = JNum (Fin 1)"

text \<open>
  Every property of the wheel but \<open>items\<close>, whose backing field holds Item objects
  and is a field of its own below.
\<close>

datatype wheel_prop =
    W_borderColor | W_borderWidth | W_debug | W_image | W_isInteractive
  | W_itemBackgroundColors | W_itemLabelAlign | W_itemLabelBaselineOffset
  | W_itemLabelColors | W_itemLabelFont | W_itemLabelFontSizeMax | W_itemLabelRadius
  | W_itemLabelRadiusMax | W_itemLabelRotation | W_itemLabelStrokeColor
  | W_itemLabelStrokeWidth | W_lineColor | W_lineWidth | W_pixelRatio | W_radius
  | W_rotation | W_rotationResistance | W_rotationSpeedMax | W_offset
  | W_onCurrentIndexChange | W_onRest | W_onSpin | W_overlayImage | W_pointerAngle

fun Defaults_wheel :: "wheel_prop \<Rightarrow> jsval" where
  "Defaults_wheel W_borderColor = JStr ''#000''"
| "Defaults_wheel W_borderWidth = JNum (Fin 1)"
| "Defaults_wheel W_debug = JBool False"
| "Defaults_wheel W_image = Null"
| "Defaults_wheel W_isInteractive = JBool True"
| "Defaults_wheel W_itemBackgroundColors = JArr [JStr ''#fff'']"
| "Defaults_wheel W_itemLabelAlign = JStr ''right''"
| "Defaults_wheel W_itemLabelBaselineOffset = JNum (Fin 0)"
| "Defaults_wheel W_itemLabelColors = JArr [JStr ''#000'']"
| "Defaults_wheel W_itemLabelFont = JStr ''sans-serif''"
| "Defaults_wheel W_itemLabelFontSizeMax = JNum (Fin 500)"
| "Defaults_wheel W_itemLabelRadius = JNum (Fin (85 / 100))"
| "Defaults_wheel W_itemLabelRadiusMax = JNum (Fin (2 / 10))"
| "Defaults_wheel W_itemLabelRotation = JNum (Fin 0)"
| "Defaults_wheel W_itemLabelStrokeColor = JStr ''#fff''"
| "Defaults_wheel W_itemLabelStrokeWidth = JNum (Fin 0)"
| "Defaults_wheel W_lineColor = JStr ''#000''"
| "Defaults_wheel W_lineWidth = JNum (Fin 1)"
| "Defaults_wheel W_pixelRatio = JNum (Fin 0)"
| "Defaults_wheel W_radius = JNum (Fin (95 / 100))"
| "Defaults_wheel W_rotation = JNum (Fin 0)"
| "Defaults_wheel W_rotationResistance = JNum (Fin (- 35))"
| "Defaults_wheel W_rotationSpeedMax = JNum (Fin 300)"
| "Defaults_wheel W_offset = JObj [(''w'', JNum (Fin 0)), (''h'', JNum (Fin 0))]"
| "Defaults_wheel W_onCurrentIndexChange = Null"
| "Defaults_wheel W_onRest = Null"
| "Defaults_wheel W_onSpin = Null"
| "Defaults_wheel W_overlayImage = Null"
| "Defaults_wheel W_pointerAngle = JNum (Fin 0)"

section \<open>item.js\<close>

text \<open>
  An Item is its backing fields, one for each property. An \<open>Image\<close> element is the
  object holding its \<open>src\<close>. Scheduling a redraw (\<open>refresh\<close>) and the canvas are
  outside the model, here and for the wheel.
\<close>

type_synonym item = "item_prop \<Rightarrow> jsval"

definition newImage :: "jsval \<Rightarrow> jsval" where
  "newImage src = JObj [(''src'', src)]"

text \<open>The test of each setter of Item: the value is stored when it holds.\<close>

fun item_accepts :: "item_prop \<Rightarrow> jsval \<Rightarrow> bool" where
  "item_accepts I_backgroundColor val = (typeof val = ''string'')"
| "item_accepts I_image val = (typeof val = ''string'')"
| "item_accepts I_imageOpacity val = (typeof val = ''number'')"
| "item_accepts I_imageRadius val = (typeof val = ''number'')"
| "item_accepts I_imageRotation val = (typeof val = ''number'')"
| "item_accepts I_imageScale val = (typeof val = ''number'')"
| "item_accepts I_label val = (typeof val = ''string'')"
| "item_accepts I_labelColor val = (typeof val = ''string'')"
| "item_accepts I_value val = (val \<noteq> Undefined)"
| "item_accepts I_weight val = (typeof val = ''number'')"

text \<open>
  The setters of Item: the value when the test holds (for \<open>image\<close>, a new Image of
  that source), the default otherwise. None of them throws.
\<close>

definition Item_set :: "item_prop \<Rightarrow> jsval \<Rightarrow> item \<Rightarrow> item" where
  "Item_set p val it =
     (if item_accepts p val then it(p := (if p = I_image then newImage val else val))
      else it(p := Defaults_item p))"

definition Item_init :: "(string \<times> jsval) list \<Rightarrow> item \<Rightarrow> item" where
  "Item_init props0 it =
     fold (\<lambda>(p, k). Item_set p (field props0 k))
       [(I_backgroundColor, ''backgroundColor''), (I_image, ''image''),
        (I_imageOpacity, ''imageOpacity''), (I_imageRadius, ''imageRadius''),
        (I_imageRotation, ''imageRotation''), (I_imageScale, ''imageScale''),
        (I_label, ''label''), (I_labelColor, ''labelColor''), (I_value, ''value''),
        (I_weight, ''weight'')] it"

text \<open>The constructor, for a \<open>props\<close> object: the defaults, then \<open>init\<close>.\<close>

definition new_Item :: "(string \<times> jsval) list \<Rightarrow> item" where
  "new_Item props0 = Item_init props0 Defaults_item"

definition weight :: "item \<Rightarrow> number" where
  "weight it = to_number (it I_weight)"

section \<open>wheel.js\<close>

record angle =
  a_start :: number
  a_end :: number

record dragEvent =
  distance :: number
  ev_x :: number
  ev_y :: number
  ev_now :: number

text \<open>The object passed to a handler: its \<open>type\<close> and its data.\<close>

datatype event =
    CurrentIndexChange "int option"
  | Rest "int option" number
  | Spin "(string \<times> jsval) list"

text \<open>
  The wheel: the backing fields of its properties, and the fields of the spin
  engine. \<open>null\<close> is \<open>None\<close>; \<open>currentIndex\<close> is \<open>None\<close> while it is undefined.
  \<open>calls\<close> records every call of a handler, oldest first, with the identifier
  of the function called; a handler returns without touching the wheel.
  \<open>performance.now()\<close> is the argument \<open>t\<close> of the functions that read the clock.
\<close>

record wheel =
  props :: "wheel_prop \<Rightarrow> jsval"
  items :: "item list"
  rotationSpeed :: number
  rotationDirection :: number
  spinToTimeEnd :: "number option"
  lastSpinFrameTime :: "number option"
  spinToStartRotation :: number
  spinToEndRotation :: number
  spinToTimeStart :: number
  spinToEasingFunction :: "number \<Rightarrow> number"
  currentIndex :: "int option"
  isInitialising :: bool
  isDragging :: bool
  dragEvents :: "dragEvent list"
  calls :: "(nat \<times> event) list"

definition rotation :: "wheel \<Rightarrow> number" where
  "rotation w = to_number (props w W_rotation)"

definition pointerAngle :: "wheel \<Rightarrow> number" where
  "pointerAngle w = to_number (props w W_pointerAngle)"

definition rotationResistance :: "wheel \<Rightarrow> number" where
  "rotationResistance w = to_number (props w W_rotationResistance)"

definition rotationSpeedMax :: "wheel \<Rightarrow> number" where
  "rotationSpeedMax w = to_number (props w W_rotationSpeedMax)"

text \<open>\<open>handler?.(e)\<close>: the handler is called when it is a function.\<close>

definition call_handler :: "jsval \<Rightarrow> event \<Rightarrow> wheel \<Rightarrow> wheel" where
  "call_handler h e w = (case h of JFun f \<Rightarrow> w\<lparr>calls := calls w @ [(f, e)]\<rparr> | _ \<Rightarrow> w)"

definition raiseEvent_onCurrentIndexChange :: "wheel \<Rightarrow> wheel" where
  "raiseEvent_onCurrentIndexChange w =
     call_handler (props w W_onCurrentIndexChange) (CurrentIndexChange (currentIndex w)) w"

definition raiseEvent_onRest :: "wheel \<Rightarrow> wheel" where
  "raiseEvent_onRest w = call_handler (props w W_onRest) (Rest (currentIndex w) (rotation w)) w"

definition raiseEvent_onSpin :: "(string \<times> jsval) list \<Rightarrow> wheel \<Rightarrow> wheel" where
  "raiseEvent_onSpin data w = call_handler (props w W_onSpin) (Spin data) w"

fun weightSum_loop :: "number \<Rightarrow> item list \<Rightarrow> number" where
  "weightSum_loop weightSum [] = weightSum"
| "weightSum_loop weightSum (i # rest) = weightSum_loop (weightSum + weight i) rest"

fun itemAngles_loop :: "number \<Rightarrow> number \<Rightarrow> item list \<Rightarrow> angle list" where
  "itemAngles_loop weightedItemAngle lastItemAngle [] = []"
| "itemAngles_loop weightedItemAngle lastItemAngle (it # rest) =
     (let itemAngle = weight it * weightedItemAngle
      in \<lparr>a_start = lastItemAngle, a_end = lastItemAngle + itemAngle\<rparr>
           # itemAngles_loop weightedItemAngle (lastItemAngle + itemAngle) rest)"

definition getItemAngles :: "number \<Rightarrow> item list \<Rightarrow> angle list" where
  "getItemAngles initialRotation its =
     (let weightSum = weightSum_loop (Fin 0) its;
          weightedItemAngle = Fin 360 / weightSum;
          angles = itemAngles_loop weightedItemAngle initialRotation its
      in if 1 < length its
         then angles[length angles - 1 :=
                (angles ! (length angles - 1))\<lparr>a_end := a_start (angles ! 0) + Fin 360\<rparr>]
         else angles)"

text \<open>
  The same loops with each operation rounded to a double, as the engine computes
  them. The frame update and the setters hand the ranges to \<open>refreshCurrentIndex\<close>
  and do not read their values; the values of the ranges are those of
  \<open>getItemAngles_rnd\<close>.
\<close>

fun weightSum_loop_rnd :: "number \<Rightarrow> item list \<Rightarrow> number" where
  "weightSum_loop_rnd weightSum [] = weightSum"
| "weightSum_loop_rnd weightSum (i # rest) = weightSum_loop_rnd (rnd (weightSum + weight i)) rest"

fun itemAngles_loop_rnd :: "number \<Rightarrow> number \<Rightarrow> item list \<Rightarrow> angle list" where
  "itemAngles_loop_rnd weightedItemAngle lastItemAngle [] = []"
| "itemAngles_loop_rnd weightedItemAngle lastItemAngle (it # rest) =
     (let itemAngle = rnd (weight it * weightedItemAngle)
      in \<lparr>a_start = lastItemAngle, a_end = rnd (lastItemAngle + itemAngle)\<rparr>
           # itemAngles_loop_rnd weightedItemAngle (rnd (lastItemAngle + itemAngle)) rest)"

definition getItemAngles_rnd :: "number \<Rightarrow> item list \<Rightarrow> angle list" where
  "getItemAngles_rnd initialRotation its =
     (let weightSum = weightSum_loop_rnd (Fin 0) its;
          weightedItemAngle = rnd (Fin 360 / weightSum);
          angles = itemAngles_loop_rnd weightedItemAngle initialRotation its
      in if 1 < length its
         then angles[length angles - 1 :=
                (angles ! (length angles - 1))\<lparr>a_end := rnd (a_start (angles ! 0) + Fin 360)\<rparr>]
         else angles)"

fun refreshCurrentIndex_loop :: "nat \<Rightarrow> angle list \<Rightarrow> wheel \<Rightarrow> wheel" where
  "refreshCurrentIndex_loop i [] w = w"
| "refreshCurrentIndex_loop i (a # rest) w =
     (if \<not> isAngleBetween (pointerAngle w) (a_start a mod Fin 360) (a_end a mod Fin 360)
      then refreshCurrentIndex_loop (Suc i) rest w
      else if currentIndex w = Some (int i) then w
      else (let w1 = w\<lparr>currentIndex := Some (int i)\<rparr>
            in if \<not> isInitialising w1 then raiseEvent_onCurrentIndexChange w1 else w1))"

definition refreshCurrentIndex :: "angle list \<Rightarrow> wheel \<Rightarrow> wheel" where
  "refreshCurrentIndex angles w =
     (let w1 = (if length (items w) = 0 then w\<lparr>currentIndex := Some (- 1)\<rparr> else w)
      in refreshCurrentIndex_loop 0 angles w1)"

text \<open>
  The setters of the wheel. Each calls \<open>setProp\<close> with its test, its message, its
  default and, for four of them, an action; an exception leaves before the
  assignment, with the wheel as it was (the second component of \<open>Inl\<close>).
\<close>

fun wheel_isValid :: "wheel_prop \<Rightarrow> jsval \<Rightarrow> bool" where
  "wheel_isValid W_borderColor val = (typeof val = ''string'')"
| "wheel_isValid W_borderWidth val = isNumber val"
| "wheel_isValid W_debug val = (typeof val = ''boolean'')"
| "wheel_isValid W_image val = (typeof val = ''string'' \<or> val = Null)"
| "wheel_isValid W_isInteractive val = (typeof val = ''boolean'')"
| "wheel_isValid W_itemBackgroundColors val = isArray val"
| "wheel_isValid W_itemLabelAlign val = (typeof val = ''string'')"
| "wheel_isValid W_itemLabelBaselineOffset val = isNumber val"
| "wheel_isValid W_itemLabelColors val = isArray val"
| "wheel_isValid W_itemLabelFont val = (typeof val = ''string'')"
| "wheel_isValid W_itemLabelFontSizeMax val = isNumber val"
| "wheel_isValid W_itemLabelRadius val = isNumber val"
| "wheel_isValid W_itemLabelRadiusMax val = isNumber val"
| "wheel_isValid W_itemLabelRotation val = isNumber val"
| "wheel_isValid W_itemLabelStrokeColor val = (typeof val = ''string'')"
| "wheel_isValid W_itemLabelStrokeWidth val = isNumber val"
| "wheel_isValid W_lineColor val = (typeof val = ''string'')"
| "wheel_isValid W_lineWidth val = isNumber val"
| "wheel_isValid W_pixelRatio val = isNumber val"
| "wheel_isValid W_radius val = isNumber val"
| "wheel_isValid W_rotation val = isNumber val"
| "wheel_isValid W_rotationResistance val = isNumber val"
| "wheel_isValid W_rotationSpeedMax val = (isNumber val \<and> Fin 0 \<le> to_number val)"
| "wheel_isValid W_offset val = isObject val"
| "wheel_isValid W_onCurrentIndexChange val = (typeof val = ''function'' \<or> val = Null)"
| "wheel_isValid W_onRest val = (typeof val = ''function'' \<or> val = Null)"
| "wheel_isValid W_onSpin val = (typeof val = ''function'' \<or> val = Null)"
| "wheel_isValid W_overlayImage val = (typeof val = ''string'' \<or> val = Null)"
| "wheel_isValid W_pointerAngle val = (isNumber val \<and> Fin 0 \<le> to_number val)"

fun wheel_errorMessage :: "wheel_prop \<Rightarrow> string" where
  "wheel_errorMessage W_borderColor = ''Wheel.borderColor must be a string''"
| "wheel_errorMessage W_borderWidth = ''Wheel.borderWidth must be a number''"
| "wheel_errorMessage W_debug = ''Wheel.debug must be a boolean''"
| "wheel_errorMessage W_image = ''Wheel.image must be a url (string) or null''"
| "wheel_errorMessage W_isInteractive = ''Wheel.isInteractive must be a boolean''"
| "wheel_errorMessage W_itemBackgroundColors = ''Wheel.itemBackgroundColors must be an array''"
| "wheel_errorMessage W_itemLabelAlign = ''Wheel.itemLabelAlign must be a string''"
| "wheel_errorMessage W_itemLabelBaselineOffset =
     ''Wheel.itemLabelBaselineOffset must be a number''"
| "wheel_errorMessage W_itemLabelColors = ''Wheel.itemLabelColors must be an array''"
| "wheel_errorMessage W_itemLabelFont = ''Wheel.itemLabelFont must be a string''"
| "wheel_errorMessage W_itemLabelFontSizeMax = ''Wheel.itemLabelFontSizeMax must be a number''"
| "wheel_errorMessage W_itemLabelRadius = ''Wheel.itemLabelRadius must be a number''"
| "wheel_errorMessage W_itemLabelRadiusMax = ''Wheel.itemLabelRadiusMax must be a number''"
| "wheel_errorMessage W_itemLabelRotation = ''Wheel.itemLabelRotation must be a number''"
| "wheel_errorMessage W_itemLabelStrokeColor = ''Wheel.itemLabelStrokeColor must be a string''"
| "wheel_errorMessage W_itemLabelStrokeWidth = ''Wheel.itemLabelStrokeWidth must be a number''"
| "wheel_errorMessage W_lineColor = ''Wheel.lineColor must be a string''"
| "wheel_errorMessage W_lineWidth = ''Wheel.lineWidth must be a number''"
| "wheel_errorMessage W_pixelRatio = ''Wheel.pixelRatio must be a number''"
| "wheel_errorMessage W_radius = ''Wheel.radius must be a number''"
| "wheel_errorMessage W_rotation = ''Wheel.rotation must be a number''"
| "wheel_errorMessage W_rotationResistance = ''Wheel.rotationResistance must be a number''"
| "wheel_errorMessage W_rotationSpeedMax = ''Wheel.rotationSpeedMax must be a number >= 0''"
| "wheel_errorMessage W_offset = ''Wheel.offset must be an object''"
| "wheel_errorMessage W_onCurrentIndexChange =
     ''Wheel.onCurrentIndexChange must be a function or null''"
| "wheel_errorMessage W_onRest = ''Wheel.onRest must be a function or null''"
| "wheel_errorMessage W_onSpin = ''Wheel.onSpin must be a function or null''"
| "wheel_errorMessage W_overlayImage = ''Wheel.overlayImage must be a url (string) or null''"
| "wheel_errorMessage W_pointerAngle = ''Wheel.pointerAngle must be a number between 0 and 360''"

text \<open>What the action of a setter returns; a setter without action stores the value.\<close>

fun wheel_action :: "wheel_prop \<Rightarrow> jsval \<Rightarrow> jsval" where
  "wheel_action W_image val = (if val = Null then Null else newImage val)"
| "wheel_action W_overlayImage val = (if val = Null then Null else newImage val)"
| "wheel_action W_pointerAngle val = JNum (to_number val mod Fin 360)"
| "wheel_action _ val = val"

text \<open>What a setter does after the assignment.\<close>

fun wheel_after :: "wheel_prop \<Rightarrow> wheel \<Rightarrow> wheel" where
  "wheel_after W_rotation w = refreshCurrentIndex (getItemAngles (rotation w) (items w)) w"
| "wheel_after W_pixelRatio w = w\<lparr>dragEvents := []\<rparr>"
| "wheel_after _ w = w"

definition set_prop :: "wheel_prop \<Rightarrow> jsval \<Rightarrow> wheel \<Rightarrow> (string \<times> wheel) + wheel" where
  "set_prop p val w =
     (case setProp val (wheel_isValid p val) (wheel_errorMessage p) (Defaults_wheel p)
             (\<lambda>_. Inr (wheel_action p val)) of
        Inl msg \<Rightarrow> Inl (msg, w)
      | Inr v \<Rightarrow> Inr (wheel_after p (w\<lparr>props := (props w)(p := v)\<rparr>)))"

text \<open>
  The setter of \<open>items\<close>: its action builds an Item from the nine properties it
  reads from each element; reading a property of \<open>null\<close> or \<open>undefined\<close> throws.
\<close>

definition prop_of :: "jsval \<Rightarrow> string \<Rightarrow> jsval" where
  "prop_of v k = (case v of JObj fs \<Rightarrow> field fs k | _ \<Rightarrow> Undefined)"

definition item_props :: "jsval \<Rightarrow> (string \<times> jsval) list" where
  "item_props v =
     map (\<lambda>k. (k, prop_of v k))
       [''backgroundColor'', ''image'', ''imageRadius'', ''imageRotation'', ''imageScale'',
        ''label'', ''labelColor'', ''value'', ''weight'']"

fun make_items :: "jsval list \<Rightarrow> string + item list" where
  "make_items [] = Inr []"
| "make_items (x # xs) =
     (if x = Undefined \<or> x = Null then Inl ''TypeError''
      else (case make_items xs of
              Inl e \<Rightarrow> Inl e
            | Inr v \<Rightarrow> Inr (new_Item (item_props x) # v)))"

fun elements :: "jsval \<Rightarrow> jsval list" where
  "elements (JArr xs) = xs"
| "elements _ = []"

definition set_items :: "jsval \<Rightarrow> wheel \<Rightarrow> (string \<times> wheel) + wheel" where
  "set_items val w =
     (case setProp val (isArray val) ''Wheel.items must be an array of Items'' []
             (\<lambda>_. make_items (elements val)) of
        Inl msg \<Rightarrow> Inl (msg, w)
      | Inr v \<Rightarrow>
          (let w1 = w\<lparr>items := v\<rparr>
           in Inr (refreshCurrentIndex (getItemAngles (rotation w1) (items w1)) w1)))"


text \<open>The spin engine.\<close>

definition set_rotation :: "number \<Rightarrow> wheel \<Rightarrow> (string \<times> wheel) + wheel" where
  "set_rotation r w = set_prop W_rotation (JNum r) w"

definition stop :: "wheel \<Rightarrow> wheel" where
  "stop w = w\<lparr>spinToTimeEnd := None, rotationSpeed := Fin 0, lastSpinFrameTime := None\<rparr>"

definition getRotationSpeedPlusDrag :: "number \<Rightarrow> wheel \<Rightarrow> number" where
  "getRotationSpeedPlusDrag delta w =
     (let newRotationSpeed =
            rotationSpeed w + ((rotationResistance w * (delta / Fin 1000)) * rotationDirection w)
      in if (rotationDirection w = Fin 1 \<and> newRotationSpeed < Fin 0)
            \<or> (rotationDirection w = Fin (- 1) \<and> Fin 0 \<le> newRotationSpeed)
         then Fin 0
         else newRotationSpeed)"

definition animateRotation :: "number \<Rightarrow> wheel \<Rightarrow> (string \<times> wheel) + wheel" where
  "animateRotation now w =
     (case spinToTimeEnd w of
        Some timeEnd \<Rightarrow>
          if timeEnd \<le> now then
            (case set_rotation (spinToEndRotation w) w of
               Inl e \<Rightarrow> Inl e
             | Inr w1 \<Rightarrow> Inr (raiseEvent_onRest (w1\<lparr>spinToTimeEnd := None\<rparr>)))
          else
            (let duration = timeEnd - spinToTimeStart w;
                 delta0 = (now - spinToTimeStart w) / duration;
                 delta = (if delta0 < Fin 0 then Fin 0 else delta0);
                 dist = spinToEndRotation w - spinToStartRotation w
             in set_rotation (spinToStartRotation w + dist * spinToEasingFunction w delta) w)
      | None \<Rightarrow>
          (case lastSpinFrameTime w of
             Some lastTime \<Rightarrow>
               (let delta = now - lastTime
                in if Fin 0 < delta then
                     (case set_rotation
                             (rotation w + (((delta / Fin 1000) * rotationSpeed w) mod Fin 360)) w of
                        Inl e \<Rightarrow> Inl e
                      | Inr w1 \<Rightarrow>
                          (let w2 = w1\<lparr>rotationSpeed := getRotationSpeedPlusDrag delta w1\<rparr>
                           in if rotationSpeed w2 = Fin 0
                              then Inr ((raiseEvent_onRest w2)\<lparr>lastSpinFrameTime := None\<rparr>)
                              else Inr (w2\<lparr>lastSpinFrameTime := Some now\<rparr>)))
                   else Inr w)
           | None \<Rightarrow> Inr w))"

definition limitSpeed :: "number \<Rightarrow> number \<Rightarrow> number" where
  "limitSpeed speed mx = (let newSpeed = Math_min speed mx in Math_max newSpeed (- mx))"

definition beginSpin :: "number \<Rightarrow> string \<Rightarrow> number \<Rightarrow> wheel \<Rightarrow> wheel" where
  "beginSpin speed spinMethod t w =
     (let w1 = stop w;
          w2 = w1\<lparr>rotationSpeed := limitSpeed speed (rotationSpeedMax w1)\<rparr>;
          w3 = w2\<lparr>lastSpinFrameTime := Some t\<rparr>;
          w4 = w3\<lparr>rotationDirection := (if Fin 0 \<le> rotationSpeed w3 then Fin 1 else Fin (- 1))\<rparr>
      in if rotationSpeed w4 \<noteq> Fin 0
         then raiseEvent_onSpin
                [(''method'', JStr spinMethod),
                 (''rotationSpeed'', JNum (rotationSpeed w4)),
                 (''rotationResistance'', props w4 W_rotationResistance)] w4
         else w4)"

text \<open>An argument that is \<open>undefined\<close> takes the default of its parameter.\<close>

definition default_arg :: "jsval \<Rightarrow> jsval \<Rightarrow> jsval" where
  "default_arg d v = (if v = Undefined then d else v)"

definition spin :: "jsval \<Rightarrow> number \<Rightarrow> wheel \<Rightarrow> (string \<times> wheel) + wheel" where
  "spin rotationSpeed0 t w =
     (let speed = default_arg (JNum (Fin 0)) rotationSpeed0
      in if \<not> isNumber speed then Inl (''rotationSpeed must be a number'', w)
         else Inr (beginSpin (to_number speed) ''spin'' t (w\<lparr>dragEvents := []\<rparr>)))"

definition animate ::
  "number \<Rightarrow> number \<Rightarrow> (number \<Rightarrow> number) option \<Rightarrow> number \<Rightarrow> wheel \<Rightarrow> wheel" where
  "animate newRotation duration easingFunction t w =
     w\<lparr>spinToStartRotation := rotation w,
        spinToEndRotation := newRotation,
        spinToTimeStart := t,
        spinToTimeEnd := Some (t + duration),
        spinToEasingFunction := (case easingFunction of Some f \<Rightarrow> f | None \<Rightarrow> easeSinOut)\<rparr>"

definition spinTo ::
  "jsval \<Rightarrow> jsval \<Rightarrow> (number \<Rightarrow> number) option \<Rightarrow> number \<Rightarrow> wheel
     \<Rightarrow> (string \<times> wheel) + wheel" where
  "spinTo rotation0 duration0 easingFunction t w =
     (let rot = default_arg (JNum (Fin 0)) rotation0;
          duration = default_arg (JNum (Fin 0)) duration0
      in if \<not> isNumber rot then Inl (''Error: rotation must be a number'', w)
         else if \<not> isNumber duration then Inl (''Error: duration must be a number'', w)
         else
           (let w1 = stop w;
                w2 = w1\<lparr>dragEvents := []\<rparr>;
                w3 = animate (to_number rot) (to_number duration) easingFunction t w2
            in Inr (raiseEvent_onSpin
                      [(''method'', JStr ''spinto''), (''targetRotation'', rot),
                       (''duration'', duration)] w3)))"

text \<open>
  The angles of an item are those of \<open>getItemAngles()\<close>, called without a rotation,
  at the index of the item; an item is found at its own position in the list.
\<close>

definition getCenterAngle :: "nat \<Rightarrow> item list \<Rightarrow> number" where
  "getCenterAngle i its =
     (let angle = getItemAngles_rnd (Fin 0) its ! i
      in rnd (a_start angle + rnd (rnd (a_end angle - a_start angle) / Fin 2)))"

definition getStartAngle :: "nat \<Rightarrow> item list \<Rightarrow> number" where
  "getStartAngle i its = a_start (getItemAngles_rnd (Fin 0) its ! i)"

definition getEndAngle :: "nat \<Rightarrow> item list \<Rightarrow> number" where
  "getEndAngle i its = a_end (getItemAngles_rnd (Fin 0) its ! i)"

text \<open>
  \<open>random\<close> is the value \<open>Math.random()\<close> returns; \<open>parseFloat\<close> reads the decimal back
  as the nearest double.
\<close>

definition getRandomFloat :: "number \<Rightarrow> number \<Rightarrow> number \<Rightarrow> nat \<Rightarrow> number" where
  "getRandomFloat random mn mx digits =
     rnd (toFixed digits (rnd (rnd (random * rnd (mx - mn)) + mn)))"

definition getRandomAngle :: "number \<Rightarrow> nat \<Rightarrow> item list \<Rightarrow> number" where
  "getRandomAngle random i its = getRandomFloat random (getStartAngle i its) (getEndAngle i its) 14"

text \<open>
  \<open>spinToItem\<close>: \<open>this.items[itemIndex]\<close> is undefined outside the list, and calling
  its method throws, after the wheel was stopped.
\<close>

definition spinToItem ::
  "int \<Rightarrow> number \<Rightarrow> bool \<Rightarrow> number \<Rightarrow> number \<Rightarrow> (number \<Rightarrow> number) option \<Rightarrow> number
     \<Rightarrow> number \<Rightarrow> wheel \<Rightarrow> (string \<times> wheel) + wheel" where
  "spinToItem itemIndex duration spinToCenter numberOfRevolutions direction easingFunction
       random t w =
     (let w1 = stop w;
          w2 = w1\<lparr>dragEvents := []\<rparr>
      in if itemIndex < 0 \<or> length (items w2) \<le> nat itemIndex then Inl (''TypeError'', w2)
         else
           (let itemAngle = (if spinToCenter then getCenterAngle (nat itemIndex) (items w2)
                             else getRandomAngle random (nat itemIndex) (items w2));
                newRotation0 = calcWheelRotationForTargetAngle (rotation w2)
                                 (rnd (itemAngle - pointerAngle w2)) direction;
                newRotation = rnd (newRotation0 + rnd (rnd (numberOfRevolutions * Fin 360) * direction));
                w3 = animate newRotation duration easingFunction t w2
            in Inr (raiseEvent_onSpin
                      [(''method'', JStr ''spintoitem''),
                       (''targetItemIndex'', JNum (Fin (of_int itemIndex))),
                       (''targetRotation'', JNum newRotation),
                       (''duration'', JNum duration)] w3)))"





text \<open>
  A wheel for the examples: the wheel at the start of \<open>init\<close>, where every backing
  field holds its default and no property has been assigned yet, with an empty
  list of drag events. A field of the timed spin that nothing has assigned yet
  holds \<open>NaN\<close>, the number of \<open>undefined\<close>.
\<close>

definition blank_wheel :: wheel where
  "blank_wheel =
     \<lparr>props = Defaults_wheel, items = [], rotationSpeed = Fin 0, rotationDirection = Fin 1,
      spinToTimeEnd = None, lastSpinFrameTime = None, spinToStartRotation = NaN,
      spinToEndRotation = NaN, spinToTimeStart = NaN, spinToEasingFunction = (\<lambda>_. NaN),
      currentIndex = None, isInitialising = True, isDragging = False, dragEvents = [],
      calls = []\<rparr>"

section \<open>What the statements observe\<close>

text \<open>The calls of the handler of \<open>onRest\<close> among the recorded calls.\<close>

fun is_rest :: "nat \<times> event \<Rightarrow> bool" where
  "is_rest (f, Rest i r) = True"
| "is_rest _ = False"








section \<open>Arithmetic of finite numbers\<close>

lemma minus_Fin [simp]: "Fin a - Fin b = Fin (a - b)"
  by (simp add: minus_number_def)

lemma le_Fin [simp]: "(Fin a \<le> Fin b) = (a \<le> b)"
  by (auto simp add: less_eq_number_def)

lemma zero_plus_number [simp]: "Fin 0 + n = n"
  by (cases n) simp_all

section \<open>Rounding to a double\<close>

lemma round_even_close: "\<bar>of_int (round_even x) - x\<bar> \<le> 1 / 2"
proof -
  have "of_int \<lfloor>x\<rfloor> \<le> x" "x < of_int \<lfloor>x\<rfloor> + 1" by linarith+
  then show ?thesis
    by (auto simp add: round_even_def Let_def)
qed

lemma round_even_of_int [simp]: "round_even (of_int n) = n"
  by (simp add: round_even_def Let_def)

lemma binade_range: "e \<le> binade n e x \<and> binade n e x \<le> e + int n"
proof (induction n arbitrary: e)
  case 0 show ?case by simp
next
  case (Suc n)
  from Suc [of "e + 1"] show ?case by auto
qed

lemma binade_upper: "binade n e x < e + int n \<Longrightarrow> x < 2 powi (binade n e x + 1)"
proof (induction n arbitrary: e)
  case 0 then show ?case by simp
next
  case (Suc n)
  show ?case
  proof (cases "x < 2 powi (e + 1)")
    case True then show ?thesis by simp
  next
    case False
    with Suc.prems have "binade n (e + 1) x < (e + 1) + int n" by simp
    from Suc.IH [OF this] False show ?thesis by simp
  qed
qed

lemma binade_lower: "e < binade n e x \<Longrightarrow> 2 powi (binade n e x) \<le> x"
proof (induction n arbitrary: e)
  case 0 then show ?case by simp
next
  case (Suc n)
  show ?case
  proof (cases "x < 2 powi (e + 1)")
    case True with Suc.prems show ?thesis by simp
  next
    case False
    then have b: "binade (Suc n) e x = binade n (e + 1) x" by simp
    show ?thesis
    proof (cases "e + 1 < binade n (e + 1) x")
      case True
      from Suc.IH [OF this] b show ?thesis by simp
    next
      case False
      with binade_range [of "e + 1" n x] have "binade n (e + 1) x = e + 1" by simp
      with b \<open>\<not> x < 2 powi (e + 1)\<close> show ?thesis by simp
    qed
  qed
qed

lemma expo_range: "- 1022 \<le> expo x \<and> expo x \<le> 1023"
  using binade_range [of "- 1022" 2045 "\<bar>x\<bar>"] by (simp add: expo_def)

lemma expo_lower: "- 1022 < expo x \<Longrightarrow> 2 powi (expo x) \<le> \<bar>x\<bar>"
  unfolding expo_def by (rule binade_lower)

lemma expo_upper: "expo x < 1023 \<Longrightarrow> \<bar>x\<bar> < 2 powi (expo x + 1)"
  using binade_upper [of 2045 "- 1022" "\<bar>x\<bar>"] by (simp add: expo_def)

lemma expo_le:
  assumes "\<bar>x\<bar> < 2 powi (e + 1)" and "- 1022 \<le> e"
  shows "expo x \<le> e"
proof (rule ccontr)
  assume "\<not> expo x \<le> e"
  then have l: "e + 1 \<le> expo x" by simp
  with assms have "- 1022 < expo x" by simp
  then have "2 powi (expo x) \<le> \<bar>x\<bar>" by (rule expo_lower)
  moreover have "(2::real) powi (e + 1) \<le> 2 powi (expo x)"
    using l by (rule power_int_increasing) simp
  ultimately show False using assms by simp
qed

lemma expo_ge:
  assumes "2 powi e \<le> \<bar>x\<bar>" and "e \<le> 1023"
  shows "e \<le> expo x"
proof (rule ccontr)
  assume "\<not> e \<le> expo x"
  then have l: "expo x + 1 \<le> e" by simp
  with assms have "expo x < 1023" by simp
  then have "\<bar>x\<bar> < 2 powi (expo x + 1)" by (rule expo_upper)
  moreover have "(2::real) powi (expo x + 1) \<le> 2 powi e"
    using l by (rule power_int_increasing) simp
  ultimately show False using assms by simp
qed

lemma expo_eq:
  assumes "2 powi e \<le> \<bar>x\<bar>" and "\<bar>x\<bar> < 2 powi (e + 1)" and "- 1022 \<le> e" and "e \<le> 1023"
  shows "expo x = e"
  using expo_le [OF assms(2,3)] expo_ge [OF assms(1,4)] by simp

lemma expo_subnormal:
  assumes "\<bar>x\<bar> < 2 powi (- 1021)"
  shows "expo x = - 1022"
  using expo_le [of x "- 1022"] assms expo_range [of x] by simp

lemma fl_at:
  assumes "2 powi e \<le> \<bar>x\<bar>" and "\<bar>x\<bar> < 2 powi (e + 1)" and "- 1022 \<le> e" and "e \<le> 1023"
    and "y = of_int (round_even (x / 2 powi (e - 52))) * 2 powi (e - 52)"
    and "\<bar>y\<bar> < 2 ^ 1024"
  shows "fl x = Fin y"
  using assms(5,6) by (simp add: fl_def Let_def expo_eq [OF assms(1-4)])

lemma fl_close:
  assumes x: "\<bar>x\<bar> \<le> B" and lo: "2 powi (- 1022) \<le> B" and hi: "B < 2 ^ 1023"
  shows "\<exists>y. fl x = Fin y \<and> \<bar>y - x\<bar> \<le> B / 2 ^ 53"
proof -
  define e where "e = expo x"
  define u :: real where "u = 2 powi (e - 52)"
  define y where "y = of_int (round_even (x / u)) * u"
  have u0: "0 < u" by (simp add: u_def)
  have "y - x = (of_int (round_even (x / u)) - x / u) * u"
    using u0 by (simp add: y_def left_diff_distrib)
  then have "\<bar>y - x\<bar> = \<bar>of_int (round_even (x / u)) - x / u\<bar> * u"
    using u0 by (simp add: abs_mult)
  also have "\<dots> \<le> (1 / 2) * u"
    using u0 round_even_close [of "x / u"] by (intro mult_right_mono) simp_all
  finally have d: "\<bar>y - x\<bar> \<le> u / 2" by simp
  have p: "(2::real) powi e \<le> B"
  proof (cases "- 1022 < e")
    case True
    then have "2 powi e \<le> \<bar>x\<bar>" unfolding e_def by (rule expo_lower)
    with x show ?thesis by simp
  next
    case False
    with expo_range [of x] have "e = - 1022" by (simp add: e_def)
    with lo show ?thesis by simp
  qed
  have "u = 2 powi e / 2 ^ 52"
    by (simp add: u_def power_int_diff)
  then have "u / 2 = 2 powi e / 2 ^ 53" by simp
  also have "\<dots> \<le> B / 2 ^ 53" using p by (simp add: divide_right_mono)
  finally have d': "\<bar>y - x\<bar> \<le> B / 2 ^ 53" using d by simp
  have "\<bar>y\<bar> \<le> \<bar>x\<bar> + \<bar>y - x\<bar>" by simp
  also have "\<dots> \<le> B + B / 2 ^ 53" using x d' by simp
  also have "\<dots> \<le> 2 * B" using lo x by (simp add: field_simps)
  also have "\<dots> < 2 ^ 1024" using hi by simp
  finally have "\<not> 2 ^ 1024 \<le> \<bar>y\<bar>" by simp
  then have "fl x = Fin y"
    by (simp add: fl_def Let_def y_def u_def e_def)
  with d' show ?thesis by blast
qed

lemma round_even_cases: "round_even x = \<lfloor>x\<rfloor> \<or> round_even x = \<lfloor>x\<rfloor> + 1"
  by (simp add: round_even_def Let_def)

lemma round_even_le:
  assumes "x \<le> of_int n"
  shows "round_even x \<le> n"
proof (cases "x = of_int n")
  case True then show ?thesis by simp
next
  case False
  with assms have "x < of_int n" by simp
  then have "\<lfloor>x\<rfloor> < n" by (simp add: floor_less_iff)
  with round_even_cases [of x] show ?thesis by linarith
qed

lemma round_even_ge:
  assumes "of_int n \<le> x"
  shows "n \<le> round_even x"
proof -
  from assms have "n \<le> \<lfloor>x\<rfloor>" by (simp add: le_floor_iff)
  with round_even_cases [of x] show ?thesis by linarith
qed

lemma pow2_int: "0 \<le> k \<Longrightarrow> (2::real) powi k = of_int (2 ^ nat k)"
  by (simp add: power_int_def)

lemma fl_le_int:
  assumes x0: "0 \<le> x" and xc: "x \<le> of_int c" and c: "c < 2 ^ 53"
  shows "\<exists>y. fl x = Fin y \<and> 0 \<le> y \<and> y \<le> of_int c"
proof -
  define e where "e = expo x"
  define u :: real where "u = 2 powi (e - 52)"
  define y where "y = of_int (round_even (x / u)) * u"
  have u0: "0 < u" by (simp add: u_def)
  have "\<bar>x\<bar> < of_int (2 ^ 53)" using x0 xc c by linarith
  then have "\<bar>x\<bar> < 2 powi (52 + 1)" by simp
  then have e: "e \<le> 52" unfolding e_def by (rule expo_le) simp
  have "of_int c / u = of_int c * 2 powi (52 - e)"
    by (simp add: u_def power_int_diff)
  also have "\<dots> = of_int (c * 2 ^ nat (52 - e))"
    using e by (simp add: pow2_int)
  finally have cu: "of_int c / u = of_int (c * 2 ^ nat (52 - e))" .
  have "x / u \<le> of_int c / u" using xc u0 by (simp add: divide_right_mono)
  then have "round_even (x / u) \<le> c * 2 ^ nat (52 - e)"
    unfolding cu by (rule round_even_le)
  then have "(of_int (round_even (x / u)) :: real) \<le> of_int (c * 2 ^ nat (52 - e))"
    by (simp only: of_int_le_iff)
  then have "of_int (round_even (x / u)) \<le> of_int c / u" by (simp only: cu)
  then have hi: "y \<le> of_int c" using u0 by (simp add: y_def pos_le_divide_eq)
  have "of_int 0 \<le> x / u" using x0 u0 by simp
  then have "0 \<le> round_even (x / u)" by (rule round_even_ge)
  then have lo: "0 \<le> y" using u0 by (simp add: y_def)
  have "of_int c < (2::real) ^ 53" using c by simp
  with hi have "y < 2 ^ 53" by simp
  also have "\<dots> < (2::real) ^ 1024" by simp
  finally have "\<not> 2 ^ 1024 \<le> \<bar>y\<bar>" using lo by simp
  then have "fl x = Fin y" by (simp add: fl_def Let_def y_def u_def e_def)
  with lo hi show ?thesis by blast
qed

lemma fl_of_int:
  assumes "\<bar>n\<bar> \<le> 2 ^ 53"
  shows "fl (of_int n) = Fin (of_int n)"
proof -
  define x :: real where "x = of_int n"
  define e where "e = expo x"
  define u :: real where "u = 2 powi (e - 52)"
  have u0: "0 < u" by (simp add: u_def)
  have small: "\<bar>x\<bar> < 2 ^ 1024"
  proof -
    have "\<bar>of_int n :: real\<bar> = of_int \<bar>n\<bar>" by simp
    also have "\<dots> \<le> 2 ^ 53" using assms by (simp del: of_int_abs)
    finally have "\<bar>x\<bar> \<le> 2 ^ 53" by (simp only: x_def)
    also have "\<dots> < (2::real) ^ 1024" by simp
    finally show ?thesis .
  qed
  have "\<exists>m::int. x / u = of_int m"
  proof (cases "\<bar>n\<bar> < 2 ^ 53")
    case True
    then have "\<bar>x\<bar> < of_int (2 ^ 53)" unfolding x_def
      by (simp only: of_int_abs [symmetric] of_int_less_iff)
    then have "\<bar>x\<bar> < 2 powi (52 + 1)" by simp
    then have e: "e \<le> 52" unfolding e_def by (rule expo_le) simp
    have "x / u = of_int n * 2 powi (52 - e)"
      by (simp add: x_def u_def power_int_diff)
    also have "\<dots> = of_int (n * 2 ^ nat (52 - e))"
      using e by (simp add: pow2_int)
    finally show ?thesis by blast
  next
    case False
    with assms have n: "\<bar>n\<bar> = 2 ^ 53" by simp
    then have a: "\<bar>x\<bar> = 2 ^ 53" unfolding x_def
      by (simp only: of_int_abs [symmetric]) simp
    have "expo x = 53" by (rule expo_eq) (simp_all add: a)
    then have "u = 2" by (simp add: u_def e_def)
    moreover from n have "n = 2 ^ 53 \<or> n = - (2 ^ 53)" by (simp add: abs_if split: if_splits)
    ultimately show ?thesis
    proof (elim disjE)
      assume "u = 2" "n = 2 ^ 53"
      then have "x / u = of_int (2 ^ 52)" by (simp add: x_def)
      then show ?thesis by blast
    next
      assume "u = 2" "n = - (2 ^ 53)"
      then have "x / u = of_int (- (2 ^ 52))" by (simp add: x_def)
      then show ?thesis by blast
    qed
  qed
  then obtain m :: int where m: "x / u = of_int m" by blast
  then have "of_int (round_even (x / u)) * u = x" using u0 by (simp add: field_simps)
  then have "fl x = Fin x" using small by (simp add: fl_def Let_def u_def e_def)
  then show ?thesis by (simp only: x_def)
qed

lemma fl_numeral [simp]:
  "numeral k \<le> (2::int) ^ 53 \<Longrightarrow> fl (numeral k) = Fin (numeral k)"
  using fl_of_int [of "numeral k"] by simp

lemma fl_neg_numeral [simp]:
  "numeral k \<le> (2::int) ^ 53 \<Longrightarrow> fl (- numeral k) = Fin (- numeral k)"
  using fl_of_int [of "- numeral k"] by simp

lemma fl_0 [simp]: "fl 0 = Fin 0"
  using fl_of_int [of 0] by simp

lemma fl_1 [simp]: "fl 1 = Fin 1"
  using fl_of_int [of 1] by simp

lemma fl_step:
  assumes v: "\<bar>v\<bar> \<le> B" and lo: "1 \<le> B" and hi: "B \<le> 2 ^ 53"
  shows "\<exists>y. fl v = Fin y \<and> \<bar>y - v\<bar> \<le> B / 2 ^ 53 \<and> (v \<in> \<int> \<longrightarrow> y = v)"
proof -
  have "(2::real) powi (- 1022) \<le> 1" by (simp add: power_int_minus field_simps)
  with lo have lo': "2 powi (- 1022) \<le> B" by simp
  have "(2::real) ^ 53 < 2 ^ 1023" by simp
  with hi have hi': "B < 2 ^ 1023" by simp
  from fl_close [OF v lo' hi'] obtain y where
    y: "fl v = Fin y" and d: "\<bar>y - v\<bar> \<le> B / 2 ^ 53" by blast
  have "y = v" if "v \<in> \<int>"
  proof -
    from that obtain n :: int where n: "v = of_int n" by (auto elim: Ints_cases)
    from v hi have "\<bar>v\<bar> \<le> 2 ^ 53" by linarith
    then have "\<bar>of_int n :: real\<bar> \<le> 2 ^ 53" by (simp only: n)
    then have "\<bar>n\<bar> \<le> 2 ^ 53" by (simp only: of_int_abs [symmetric]) simp
    from fl_of_int [OF this] y show ?thesis by (simp add: n)
  qed
  with y d show ?thesis by blast
qed

section \<open>Angle arithmetic\<close>

lemma wrap_range: "0 \<le> b - 360 * of_int \<lfloor>b / 360\<rfloor> \<and> b - 360 * of_int \<lfloor>b / 360\<rfloor> < (360::real)"
proof -
  have "of_int \<lfloor>b / 360\<rfloor> \<le> b / 360" and "b / 360 < of_int \<lfloor>b / 360\<rfloor> + 1"
    by linarith+
  then show ?thesis by (simp add: field_simps)
qed

lemma mod_360_pos:
  assumes "0 < s"
  shows "\<exists>j. Fin s mod Fin 360 = Fin (s - 360 * of_int j)
           \<and> 0 \<le> s - 360 * of_int j \<and> s - 360 * of_int j < 360"
proof -
  have "of_int \<lfloor>s / 360\<rfloor> \<le> s / 360" and "s / 360 < of_int \<lfloor>s / 360\<rfloor> + 1"
    by linarith+
  then have "0 \<le> s - 360 * of_int \<lfloor>s / 360\<rfloor> \<and> s - 360 * of_int \<lfloor>s / 360\<rfloor> < 360"
    by linarith
  moreover have "Fin s mod Fin 360 = Fin (s - 360 * of_int \<lfloor>s / 360\<rfloor>)"
    using assms by (simp add: trunc_def)
  ultimately show ?thesis by blast
qed

lemma mod_360_nonpos:
  assumes "s \<le> 0"
  shows "\<exists>j. Fin s mod Fin 360 = Fin (s - 360 * of_int j)
           \<and> - 360 < s - 360 * of_int j \<and> s - 360 * of_int j \<le> 0"
proof -
  have "of_int \<lceil>s / 360\<rceil> - 1 < s / 360" and "s / 360 \<le> of_int \<lceil>s / 360\<rceil>"
    by linarith+
  then have "- 360 < s - 360 * of_int \<lceil>s / 360\<rceil> \<and> s - 360 * of_int \<lceil>s / 360\<rceil> \<le> 0"
    by linarith
  moreover have "trunc (s / 360) = \<lceil>s / 360\<rceil>"
  proof (cases "s = 0")
    case True then show ?thesis by (simp add: trunc_def)
  next
    case False
    with assms have "s / 360 < 0" by simp
    then show ?thesis by (simp add: trunc_def)
  qed
  then have "Fin s mod Fin 360 = Fin (s - 360 * of_int \<lceil>s / 360\<rceil>)" by simp
  ultimately show ?thesis by blast
qed

lemma mod_360_Fin:
  "\<exists>j. Fin a mod Fin 360 = Fin (a - 360 * of_int j) \<and> \<bar>a - 360 * of_int j\<bar> < 360"
proof (cases "0 < a")
  case True
  from mod_360_pos [OF True] obtain j where
    "Fin a mod Fin 360 = Fin (a - 360 * of_int j)"
    "0 \<le> a - 360 * of_int j" "a - 360 * of_int j < 360" by blast
  moreover then have "\<bar>a - 360 * of_int j\<bar> < 360" by linarith
  ultimately show ?thesis by blast
next
  case False
  then have "a \<le> 0" by simp
  from mod_360_nonpos [OF this] obtain j where
    "Fin a mod Fin 360 = Fin (a - 360 * of_int j)"
    "- 360 < a - 360 * of_int j" "a - 360 * of_int j \<le> 0" by blast
  moreover then have "\<bar>a - 360 * of_int j\<bar> < 360" by linarith
  ultimately show ?thesis by blast
qed

text \<open>
  \<open>addAngle\<close> returns an angle of \<open>[0, 360)\<close> that is the sum up to whole turns and
  to its two roundings.
\<close>

lemma addAngle_close:
  assumes ab: "\<bar>a + b\<bar> \<le> B" and lo: "1 \<le> B" and hi: "B < 2 ^ 1023"
  shows "\<exists>r k. addAngle (Fin a) (Fin b) = Fin r \<and> 0 \<le> r \<and> r < 360
           \<and> \<bar>r - (a + b) - 360 * of_int k\<bar> \<le> B / 2 ^ 53 + 360 / 2 ^ 53"
proof -
  have "(2::real) powi (- 1022) \<le> 1" by (simp add: power_int_minus field_simps)
  with lo have lo': "2 powi (- 1022) \<le> B" by simp
  from fl_close [OF ab lo' hi] obtain s where
    s: "fl (a + b) = Fin s" and ds: "\<bar>s - (a + b)\<bar> \<le> B / 2 ^ 53" by blast
  have e0: "0 \<le> 360 / (2::real) ^ 53" by simp
  show ?thesis
  proof (cases "0 < s")
    case True
    from mod_360_pos [OF True] obtain j where
      m: "Fin s mod Fin 360 = Fin (s - 360 * of_int j)"
      and r: "0 \<le> s - 360 * of_int j" "s - 360 * of_int j < 360" by blast
    have "addAngle (Fin a) (Fin b) = Fin (s - 360 * of_int j)"
      using True r by (simp add: addAngle_def Let_def s m del: modulo_number.simps)
    moreover have "(s - 360 * of_int j) - (a + b) - 360 * of_int (- j) = s - (a + b)"
      by simp
    then have "\<bar>(s - 360 * of_int j) - (a + b) - 360 * of_int (- j)\<bar>
        \<le> B / 2 ^ 53 + 360 / 2 ^ 53"
      using ds e0 by linarith
    ultimately show ?thesis using r by blast
  next
    case False
    then have "s \<le> 0" by simp
    from mod_360_nonpos [OF this] obtain j where
      m: "Fin s mod Fin 360 = Fin (s - 360 * of_int j)"
      and r: "- 360 < s - 360 * of_int j" "s - 360 * of_int j \<le> 0" by blast
    define t where "t = 360 + (s - 360 * of_int j)"
    have t: "0 \<le> t" "t \<le> of_int 360" "\<bar>t\<bar> \<le> 360" using r by (simp_all add: t_def)
    from fl_le_int [OF t(1,2)] obtain y where
      y: "fl t = Fin y" and y0: "0 \<le> y" and y1: "y \<le> 360" by auto
    have "(2::real) powi (- 1022) \<le> 360" by (simp add: power_int_minus field_simps)
    from fl_close [OF t(3) this] y have dy: "\<bar>y - t\<bar> \<le> 360 / 2 ^ 53" by simp
    have res: "rnd (Fin 360 + Fin s mod Fin 360) = Fin y"
      by (simp add: m y [unfolded t_def] del: modulo_number.simps)
    show ?thesis
    proof (cases "y = 360")
      case True
      have "addAngle (Fin a) (Fin b) = Fin 0"
        using False by (simp add: addAngle_def Let_def s res True del: modulo_number.simps)
      moreover have "0 - (a + b) - 360 * of_int (- j) = (s - (a + b)) + (y - t)"
        using True by (simp add: t_def)
      then have "\<bar>0 - (a + b) - 360 * of_int (- j)\<bar> \<le> B / 2 ^ 53 + 360 / 2 ^ 53"
        using ds dy by linarith
      ultimately show ?thesis by (intro exI [of _ 0] exI [of _ "- j"]) simp
    next
      case n: False
      have "addAngle (Fin a) (Fin b) = Fin y"
        using False n by (simp add: addAngle_def Let_def s res del: modulo_number.simps)
      moreover have "y - (a + b) - 360 * of_int (1 - j) = (s - (a + b)) + (y - t)"
        by (simp add: t_def)
      then have "\<bar>y - (a + b) - 360 * of_int (1 - j)\<bar> \<le> B / 2 ^ 53 + 360 / 2 ^ 53"
        using ds dy by linarith
      moreover have "y < 360" using y1 n by simp
      ultimately show ?thesis using y0 by blast
    qed
  qed
qed


lemma diffAngle_close:
  assumes a: "\<bar>a\<bar> \<le> 10 ^ 6" and b: "\<bar>b\<bar> \<le> 10 ^ 6"
  shows "\<exists>d k. diffAngle (Fin a) (Fin b) = Fin d \<and> \<bar>d\<bar> \<le> 181
           \<and> \<bar>d - (b - a) - 360 * of_int k\<bar> \<le> (3 * 2 ^ 20 + 540) / 2 ^ 53"
proof -
  have p: "(2::real) powi (- 1022) \<le> 2 ^ 20" "(2::real) powi (- 1022) \<le> 180"
    by (simp_all add: power_int_minus field_simps)
  from a b have a': "\<bar>a\<bar> \<le> 1000000" and b': "\<bar>b\<bar> \<le> 1000000" by simp_all
  have "\<bar>180 - b\<bar> \<le> 1048576" using b' by linarith
  then have "\<bar>180 - b\<bar> \<le> 2 ^ 20" by simp
  from fl_close [OF this p(1)] obtain ofs where
    o: "fl (180 - b) = Fin ofs" and od: "\<bar>ofs - (180 - b)\<bar> \<le> 2 ^ 20 / 2 ^ 53" by auto
  have "(2::real) ^ 20 / 2 ^ 53 \<le> 1" by simp
  with od have "\<bar>ofs - (180 - b)\<bar> \<le> 1" by linarith
  with a' b' have "\<bar>a + ofs\<bar> \<le> 2097152" by linarith
  then have "\<bar>a + ofs\<bar> \<le> 2 ^ 21" by simp
  from addAngle_close [OF this] obtain r k where
    r: "addAngle (Fin a) (Fin ofs) = Fin r" and r0: "0 \<le> r" and r1: "r < 360"
    and rd: "\<bar>r - (a + ofs) - 360 * of_int k\<bar> \<le> 2 ^ 21 / 2 ^ 53 + 360 / 2 ^ 53" by auto
  have "\<bar>180 - r\<bar> \<le> 180" using r0 r1 by linarith
  from fl_close [OF this p(2)] obtain d where
    d: "fl (180 - r) = Fin d" and dd: "\<bar>d - (180 - r)\<bar> \<le> 180 / 2 ^ 53" by auto
  have v: "diffAngle (Fin a) (Fin b) = Fin d"
    by (simp add: diffAngle_def Let_def o r d)
  have "(180::real) / 2 ^ 53 \<le> 1" by simp
  with dd r0 r1 have "\<bar>d\<bar> \<le> 181" by linarith
  moreover have "d - (b - a) - 360 * of_int (- k)
      = (d - (180 - r)) - (ofs - (180 - b)) - (r - (a + ofs) - 360 * of_int k)"
    by simp
  then have "\<bar>d - (b - a) - 360 * of_int (- k)\<bar>
      \<le> 180 / 2 ^ 53 + 2 ^ 20 / 2 ^ 53 + (2 ^ 21 / 2 ^ 53 + 360 / 2 ^ 53)"
    using dd od rd by linarith
  then have "\<bar>d - (b - a) - 360 * of_int (- k)\<bar> \<le> (3 * 2 ^ 20 + 540) / 2 ^ 53"
    by simp
  ultimately show ?thesis using v by blast
qed

text \<open>
  C6. For angles \<open>a\<close> and \<open>b\<close> of magnitude at most \<open>10^6\<close>, adding \<open>diffAngle a b\<close>
  back to \<open>a\<close> gives an angle \<open>s\<close> of \<open>[0, 360)\<close> that is \<open>b\<close> up to whole turns
  within \<open>10^-9\<close>; normalising it (adding 0 with \<open>addAngle\<close>) and normalising \<open>b\<close>
  give two angles of \<open>[0, 360)\<close> that agree up to whole turns within \<open>10^-9\<close>. They
  are not equal in general: every sum is rounded to a double, and a difference of a
  few units in the last place can fall on either side of the wrap at 360.
\<close>

theorem diffAngle_round_trip:
  assumes a: "\<bar>a\<bar> \<le> 10 ^ 6" and b: "\<bar>b\<bar> \<le> 10 ^ 6"
  shows "\<exists>s x y j k.
      addAngle (Fin a) (diffAngle (Fin a) (Fin b)) = Fin s
    \<and> addAngle (Fin s) (Fin 0) = Fin x
    \<and> addAngle (Fin b) (Fin 0) = Fin y
    \<and> 0 \<le> s \<and> s < 360 \<and> 0 \<le> x \<and> x < 360 \<and> 0 \<le> y \<and> y < 360
    \<and> \<bar>s - b - 360 * of_int j\<bar> \<le> 1 / 10 ^ 9
    \<and> \<bar>x - y - 360 * of_int k\<bar> \<le> 1 / 10 ^ 9"
proof -
  from diffAngle_close [OF a b] obtain d k1 where
    d: "diffAngle (Fin a) (Fin b) = Fin d" and d1: "\<bar>d\<bar> \<le> 181"
    and dd: "\<bar>d - (b - a) - 360 * of_int k1\<bar> \<le> (3 * 2 ^ 20 + 540) / 2 ^ 53" by blast
  from a b have a': "\<bar>a\<bar> \<le> 1000000" and b': "\<bar>b\<bar> \<le> 1000000" by simp_all
  from a' d1 have "\<bar>a + d\<bar> \<le> 1048576" by linarith
  then have "\<bar>a + d\<bar> \<le> 2 ^ 20" by simp
  from addAngle_close [OF this] obtain s k2 where
    s: "addAngle (Fin a) (Fin d) = Fin s" and s0: "0 \<le> s" and s1: "s < 360"
    and sd: "\<bar>s - (a + d) - 360 * of_int k2\<bar> \<le> 2 ^ 20 / 2 ^ 53 + 360 / 2 ^ 53" by auto
  have "\<bar>s + 0\<bar> \<le> 360" using s0 s1 by linarith
  from addAngle_close [OF this] obtain x k3 where
    x: "addAngle (Fin s) (Fin 0) = Fin x" and x0: "0 \<le> x" and x1: "x < 360"
    and xd: "\<bar>x - (s + 0) - 360 * of_int k3\<bar> \<le> 360 / 2 ^ 53 + 360 / 2 ^ 53" by auto
  from b' have "\<bar>b + 0\<bar> \<le> 1048576" by linarith
  then have "\<bar>b + 0\<bar> \<le> 2 ^ 20" by simp
  from addAngle_close [OF this] obtain y k4 where
    y: "addAngle (Fin b) (Fin 0) = Fin y" and y0: "0 \<le> y" and y1: "y < 360"
    and yd: "\<bar>y - (b + 0) - 360 * of_int k4\<bar> \<le> 2 ^ 20 / 2 ^ 53 + 360 / 2 ^ 53" by auto
  have "s - b - 360 * of_int (k1 + k2)
      = (s - (a + d) - 360 * of_int k2) + (d - (b - a) - 360 * of_int k1)"
    by simp
  then have "\<bar>s - b - 360 * of_int (k1 + k2)\<bar>
      \<le> (2 ^ 20 / 2 ^ 53 + 360 / 2 ^ 53) + (3 * 2 ^ 20 + 540) / 2 ^ 53"
    using sd dd by linarith
  then have sb: "\<bar>s - b - 360 * of_int (k1 + k2)\<bar> \<le> (4 * 2 ^ 20 + 900) / 2 ^ 53"
    by simp
  have "x - y - 360 * of_int (k1 + k2 + k3 - k4)
      = (x - (s + 0) - 360 * of_int k3) + (s - b - 360 * of_int (k1 + k2))
        - (y - (b + 0) - 360 * of_int k4)"
    by simp
  then have "\<bar>x - y - 360 * of_int (k1 + k2 + k3 - k4)\<bar>
      \<le> (360 / 2 ^ 53 + 360 / 2 ^ 53) + (4 * 2 ^ 20 + 900) / 2 ^ 53
        + (2 ^ 20 / 2 ^ 53 + 360 / 2 ^ 53)"
    using xd sb yd by linarith
  then have xy: "\<bar>x - y - 360 * of_int (k1 + k2 + k3 - k4)\<bar> \<le> 1 / 10 ^ 9"
    by simp
  from sb have sb': "\<bar>s - b - 360 * of_int (k1 + k2)\<bar> \<le> 1 / 10 ^ 9" by simp
  have "addAngle (Fin a) (diffAngle (Fin a) (Fin b)) = Fin s" by (simp only: d s)
  with x y s0 s1 x0 x1 y0 y1 sb' xy show ?thesis by blast
qed

theorem diffAngle_round_trip_witness:
  "addAngle (Fin 350) (diffAngle (Fin 350) (Fin 370)) = Fin 10
   \<and> addAngle (Fin 370) (Fin 0) = Fin 10
   \<and> (\<exists>s x y j k.
         addAngle (Fin 350) (diffAngle (Fin 350) (Fin 370)) = Fin s
       \<and> addAngle (Fin s) (Fin 0) = Fin x
       \<and> addAngle (Fin 370) (Fin 0) = Fin y
       \<and> 0 \<le> s \<and> s < 360 \<and> 0 \<le> x \<and> x < 360 \<and> 0 \<le> y \<and> y < 360
       \<and> \<bar>s - 370 - 360 * of_int j\<bar> \<le> 1 / 10 ^ 9
       \<and> \<bar>x - y - 360 * of_int k\<bar> \<le> 1 / 10 ^ 9)"
  using diffAngle_round_trip [of 350 370]
  by (simp add: addAngle_def diffAngle_def Let_def trunc_def)

text \<open>
  The angle 357.7 (the double nearest to it) and 0: the difference is
  2.2999999999999545, the sum comes back as 359.99999999999994, which is its own
  normal form, and the normal form of 0 is 0.
\<close>

theorem diffAngle_round_trip_counterexample:
  "fl (3577 / 10) = Fin (6292724948087603 / 17592186044416)
   \<and> diffAngle (Fin (6292724948087603 / 17592186044416)) (Fin 0)
       = Fin (10115506975539 / 4398046511104)
   \<and> addAngle (addAngle (Fin (6292724948087603 / 17592186044416))
                  (diffAngle (Fin (6292724948087603 / 17592186044416)) (Fin 0))) (Fin 0)
       = Fin (6333186975989759 / 17592186044416)
   \<and> addAngle (Fin 0) (Fin 0) = Fin 0"
proof -
  have f0: "fl (3577 / 10) = Fin (6292724948087603 / 17592186044416)"
    by (rule fl_at [where e = 8]) (simp_all add: round_even_def Let_def)
  have f1: "fl (9459318436082483 / 17592186044416) = Fin (2364829609020621 / 4398046511104)"
    by (rule fl_at [where e = 9]) (simp_all add: round_even_def Let_def)
  have f2: "fl (10115506975539 / 4398046511104) = Fin (10115506975539 / 4398046511104)"
    by (rule fl_at [where e = 1]) (simp_all add: round_even_def Let_def)
  have f3: "fl (6333186975989759 / 17592186044416) = Fin (6333186975989759 / 17592186044416)"
    by (rule fl_at [where e = 8]) (simp_all add: round_even_def Let_def)
  have d: "diffAngle (Fin (6292724948087603 / 17592186044416)) (Fin 0)
       = Fin (10115506975539 / 4398046511104)"
    by (simp add: addAngle_def diffAngle_def Let_def trunc_def f1 f2)
  have s: "addAngle (Fin (6292724948087603 / 17592186044416))
              (Fin (10115506975539 / 4398046511104))
       = Fin (6333186975989759 / 17592186044416)"
    by (simp add: addAngle_def Let_def trunc_def f3)
  have n: "addAngle (Fin (6333186975989759 / 17592186044416)) (Fin 0)
       = Fin (6333186975989759 / 17592186044416)"
    by (simp add: addAngle_def Let_def trunc_def f3)
  have z: "addAngle (Fin 0) (Fin 0) = Fin 0"
    by (simp add: addAngle_def Let_def trunc_def)
  from f0 d s n z show ?thesis by (simp only: simp_thms)
qed

section \<open>The layout of the slices\<close>


lemma length_itemAngles_loop [simp]: "length (itemAngles_loop c l its) = length its"
  by (induction its arbitrary: l) (simp_all add: Let_def)

lemma length_getItemAngles [simp]: "length (getItemAngles r its) = length its"
  by (simp add: getItemAngles_def Let_def)

lemma weight_new_Item:
  "weight (new_Item ps) =
     (if typeof (field ps ''weight'') = ''number'' then to_number (field ps ''weight'') else Fin 1)"
  by (simp add: new_Item_def Item_init_def Item_set_def weight_def)

lemma length_itemAngles_loop_rnd [simp]: "length (itemAngles_loop_rnd c l its) = length its"
  by (induction its arbitrary: l) (simp_all add: Let_def)

lemma length_getItemAngles_rnd [simp]: "length (getItemAngles_rnd r its) = length its"
  by (simp add: getItemAngles_rnd_def Let_def)

















section \<open>A total weight of zero\<close>


lemma rotation_items_update [simp]: "rotation (w\<lparr>items := v\<rparr>) = rotation w"
  by (simp add: rotation_def)









section \<open>The spin engine\<close>

lemma call_handler_fields [simp]:
  "rotationSpeed (call_handler h e w) = rotationSpeed w"
  "rotationDirection (call_handler h e w) = rotationDirection w"
  "lastSpinFrameTime (call_handler h e w) = lastSpinFrameTime w"
  "spinToTimeEnd (call_handler h e w) = spinToTimeEnd w"
  "spinToEndRotation (call_handler h e w) = spinToEndRotation w"
  "dragEvents (call_handler h e w) = dragEvents w"
  "isDragging (call_handler h e w) = isDragging w"
  "items (call_handler h e w) = items w"
  "props (call_handler h e w) = props w"
  by (cases h; simp add: call_handler_def)+

lemma refreshCurrentIndex_loop_shape:
  "\<exists>ci cs. refreshCurrentIndex_loop i angles w = w\<lparr>currentIndex := ci, calls := calls w @ cs\<rparr>
     \<and> filter is_rest cs = []"
proof (induction angles arbitrary: i)
  case Nil
  have "w = w\<lparr>currentIndex := currentIndex w, calls := calls w @ []\<rparr>" by simp
  then show ?case by (metis filter.simps(1) refreshCurrentIndex_loop.simps(1))
next
  case (Cons a rest)
  show ?case
  proof (cases "isAngleBetween (pointerAngle w) (a_start a mod Fin 360) (a_end a mod Fin 360)")
    case False
    with Cons.IH [of "Suc i"] show ?thesis by simp
  next
    case True
    show ?thesis
    proof (cases "currentIndex w = Some (int i)")
      case same: True
      have "w = w\<lparr>currentIndex := currentIndex w, calls := calls w @ []\<rparr>" by simp
      moreover have "refreshCurrentIndex_loop i (a # rest) w = w" using True same by simp
      ultimately show ?thesis by (metis filter.simps(1))
    next
      case diff: False
      show ?thesis
      proof (cases "isInitialising w")
        case True
        have "refreshCurrentIndex_loop i (a # rest) w
              = w\<lparr>currentIndex := Some (int i), calls := calls w @ []\<rparr>"
          using \<open>isAngleBetween _ _ _\<close> diff True by (simp add: Let_def)
        then show ?thesis by (metis filter.simps(1))
      next
        case False
        show ?thesis
        proof (cases "props w W_onCurrentIndexChange")
          case (JFun f)
          have "refreshCurrentIndex_loop i (a # rest) w
              = w\<lparr>currentIndex := Some (int i),
                   calls := calls w @ [(f, CurrentIndexChange (Some (int i)))]\<rparr>"
            using \<open>isAngleBetween _ _ _\<close> diff False JFun
            by (simp add: Let_def raiseEvent_onCurrentIndexChange_def call_handler_def)
          moreover have "filter is_rest [(f, CurrentIndexChange (Some (int i)))] = []" by simp
          ultimately show ?thesis by blast
        qed (insert \<open>isAngleBetween _ _ _\<close> diff False,
             auto simp add: Let_def raiseEvent_onCurrentIndexChange_def call_handler_def
               intro!: exI [of _ "Some (int i)"] exI [of _ "[]"])
      qed
    qed
  qed
qed

lemma refreshCurrentIndex_shape:
  "\<exists>ci cs. refreshCurrentIndex angles w = w\<lparr>currentIndex := ci, calls := calls w @ cs\<rparr>
     \<and> filter is_rest cs = []"
proof (cases "length (items w) = 0")
  case True
  from refreshCurrentIndex_loop_shape [of 0 angles "w\<lparr>currentIndex := Some (- 1)\<rparr>"]
  obtain ci cs where "refreshCurrentIndex_loop 0 angles (w\<lparr>currentIndex := Some (- 1)\<rparr>)
      = w\<lparr>currentIndex := Some (- 1)\<rparr>\<lparr>currentIndex := ci,
           calls := calls (w\<lparr>currentIndex := Some (- 1)\<rparr>) @ cs\<rparr>" and "filter is_rest cs = []"
    by blast
  with True show ?thesis
    by (auto simp add: refreshCurrentIndex_def Let_def)
next
  case False
  with refreshCurrentIndex_loop_shape [of 0 angles w] show ?thesis
    by (simp add: refreshCurrentIndex_def Let_def)
qed



lemma not_pos_of_le_zero: "d \<le> Fin 0 \<Longrightarrow> \<not> Fin 0 < d"
  by (cases d) (auto simp add: less_eq_number_def)


lemma animateRotation_not_later:
  "spinToTimeEnd w = None \<Longrightarrow> lastSpinFrameTime w = Some lastTime \<Longrightarrow>
   \<not> Fin 0 < now - lastTime \<Longrightarrow> animateRotation now w = Inr w"
  by (simp add: animateRotation_def Let_def)

text \<open>
  C8. During a velocity-decay spin (no timed spin is active and the time of the
  last frame is recorded), a frame whose time is not after the last one, so that
  the elapsed time is zero or negative, leaves the wheel as it is: the rotation,
  the speed and the time of the last frame are unchanged, and nothing is called.
\<close>

theorem non_positive_delta_no_op:
  assumes "spinToTimeEnd w = None"
    and "lastSpinFrameTime w = Some lastTime"
    and "now - lastTime \<le> Fin 0"
  shows "animateRotation now w = Inr w"
  using assms by (simp add: animateRotation_not_later not_pos_of_le_zero)

theorem non_positive_delta_no_op_witness:
  "spinToTimeEnd (beginSpin (Fin 100) ''spin'' (Fin 50) blank_wheel) = None
   \<and> lastSpinFrameTime (beginSpin (Fin 100) ''spin'' (Fin 50) blank_wheel) = Some (Fin 50)
   \<and> Fin 40 - Fin 50 \<le> Fin 0
   \<and> animateRotation (Fin 40) (beginSpin (Fin 100) ''spin'' (Fin 50) blank_wheel)
       = Inr (beginSpin (Fin 100) ''spin'' (Fin 50) blank_wheel)"
proof -
  define w where "w = beginSpin (Fin 100) ''spin'' (Fin 50) blank_wheel"
  have h1: "spinToTimeEnd w = None"
    by (simp add: w_def beginSpin_def stop_def Let_def raiseEvent_onSpin_def call_handler_def
          blank_wheel_def)
  have h2: "lastSpinFrameTime w = Some (Fin 50)"
    by (simp add: w_def beginSpin_def stop_def Let_def raiseEvent_onSpin_def call_handler_def
          blank_wheel_def)
  have h3: "Fin 40 - Fin 50 \<le> Fin 0" by simp
  from non_positive_delta_no_op [OF h1 h2 h3] h1 h2 h3 show ?thesis
    by (simp add: w_def)
qed












lemma isNumber_to_number: "isNumber v \<Longrightarrow> to_number v \<noteq> NaN"
  by (cases v) simp_all

text \<open>\<open>spinTo\<close> starts a timed spin whose target is a number, and no other spin.\<close>

lemma spinTo_starts_timed_spin:
  assumes "spinTo rotation0 duration0 easingFunction t w = Inr w'"
  shows "spinToTimeEnd w' = Some (t + to_number (default_arg (JNum (Fin 0)) duration0))
    \<and> lastSpinFrameTime w' = None
    \<and> spinToEndRotation w' = to_number (default_arg (JNum (Fin 0)) rotation0)
    \<and> spinToEndRotation w' \<noteq> NaN"
proof -
  define rot where "rot = default_arg (JNum (Fin 0)) rotation0"
  define dur where "dur = default_arg (JNum (Fin 0)) duration0"
  from assms have n: "isNumber rot"
    by (simp add: spinTo_def Let_def rot_def split: if_splits)
  from assms have "isNumber dur"
    by (simp add: spinTo_def Let_def dur_def split: if_splits)
  with assms n have "w' = raiseEvent_onSpin
                      [(''method'', JStr ''spinto''), (''targetRotation'', rot),
                       (''duration'', dur)]
                      (animate (to_number rot) (to_number dur) easingFunction t
                         ((stop w)\<lparr>dragEvents := []\<rparr>))"
    by (simp add: spinTo_def Let_def rot_def dur_def)
  then show ?thesis
    using isNumber_to_number [OF n]
    by (simp add: raiseEvent_onSpin_def animate_def stop_def rot_def dur_def)
qed



section \<open>The end of a drag\<close>







section \<open>Spinning to an item\<close>

lemma scale_half:
  fixes y :: real
  assumes "\<bar>y\<bar> \<le> 1 / 2"
  shows "\<bar>y / 10 ^ d\<bar> \<le> 1 / (2 * 10 ^ d)"
proof -
  have "\<bar>y / 10 ^ d\<bar> = \<bar>y\<bar> / 10 ^ d" by simp
  also have "\<dots> \<le> (1 / 2) / 10 ^ d" using assms by (rule divide_right_mono) simp
  also have "\<dots> = 1 / (2 * 10 ^ d)" by simp
  finally show ?thesis .
qed

lemma toFixed_close:
  assumes "\<bar>a\<bar> < 10 ^ 21"
  shows "\<exists>b. toFixed d (Fin a) = Fin b \<and> \<bar>b - a\<bar> \<le> 1 / (2 * 10 ^ d)
           \<and> ((\<exists>z::int. a * 10 ^ d = of_int z) \<longrightarrow> b = a)"
proof (cases "a < 0")
  case True
  define b :: real where "b = - (of_int (round (- a * 10 ^ d)) / 10 ^ d)"
  have t: "toFixed d (Fin a) = Fin b" using assms True by (simp add: toFixed_def b_def)
  have "\<bar>of_int (round (- a * 10 ^ d)) - (- a * 10 ^ d)\<bar> \<le> 1 / 2"
    by (rule of_int_round_abs_le)
  then have "\<bar>(of_int (round (- a * 10 ^ d)) - (- a * 10 ^ d)) / 10 ^ d\<bar> \<le> 1 / (2 * 10 ^ d)"
    by (rule scale_half)
  moreover have "(of_int (round (- a * 10 ^ d)) - (- a * 10 ^ d)) / 10 ^ d = - (b - a)"
    by (simp add: b_def field_simps)
  ultimately have "\<bar>- (b - a)\<bar> \<le> 1 / (2 * 10 ^ d)" by (simp only:)
  then have c: "\<bar>b - a\<bar> \<le> 1 / (2 * 10 ^ d)" by (simp only: abs_minus_cancel)
  have e: "b = a" if "\<exists>z::int. a * 10 ^ d = of_int z"
  proof -
    from that obtain z :: int where z: "a * 10 ^ d = of_int z" by blast
    then have "- a * 10 ^ d = of_int (- z)" by simp
    then have "round (- a * 10 ^ d) = - z" by (simp only: round_of_int)
    then have "b = - (of_int (- z) / 10 ^ d)" by (simp add: b_def)
    also have "\<dots> = a * 10 ^ d / 10 ^ d" using z by simp
    finally show ?thesis by simp
  qed
  from t c e show ?thesis by blast
next
  case False
  define b :: real where "b = of_int (round (a * 10 ^ d)) / 10 ^ d"
  have t: "toFixed d (Fin a) = Fin b" using assms False by (simp add: toFixed_def b_def)
  have "\<bar>of_int (round (a * 10 ^ d)) - a * 10 ^ d\<bar> \<le> 1 / 2"
    by (rule of_int_round_abs_le)
  then have "\<bar>(of_int (round (a * 10 ^ d)) - a * 10 ^ d) / 10 ^ d\<bar> \<le> 1 / (2 * 10 ^ d)"
    by (rule scale_half)
  moreover have "(of_int (round (a * 10 ^ d)) - a * 10 ^ d) / 10 ^ d = b - a"
    by (simp add: b_def field_simps)
  ultimately have c: "\<bar>b - a\<bar> \<le> 1 / (2 * 10 ^ d)" by (simp only:)
  have e: "b = a" if "\<exists>z::int. a * 10 ^ d = of_int z"
  proof -
    from that obtain z :: int where z: "a * 10 ^ d = of_int z" by blast
    then have "round (a * 10 ^ d) = z" by (simp only: round_of_int)
    then have "b = of_int z / 10 ^ d" by (simp add: b_def)
    also have "\<dots> = a * 10 ^ d / 10 ^ d" using z by simp
    finally show ?thesis by simp
  qed
  from t c e show ?thesis by blast
qed


lemma calc_clockwise:
  assumes x: "\<bar>x\<bar> \<le> 10 ^ 6" and t: "\<bar>t\<bar> \<le> 360"
  shows "\<exists>R k. calcWheelRotationForTargetAngle (Fin x) (Fin t) (Fin 1) = Fin R
     \<and> \<bar>R\<bar> \<le> 2 ^ 20
     \<and> \<bar>R + t - 360 * of_int k\<bar> \<le> 1 / (2 * 10 ^ 9) + 1 / 2 ^ 32
     \<and> (x \<in> \<int> \<and> t \<in> \<int> \<longrightarrow> R \<in> \<int> \<and> R + t = 360 * of_int k)"
proof -
  from x have x': "\<bar>x\<bar> \<le> 1000000" by simp
  from mod_360_Fin [of x] obtain j0 where
    m0: "Fin x mod Fin 360 = Fin (x - 360 * of_int j0)"
    and b0: "\<bar>x - 360 * of_int j0\<bar> < 360" by blast
  define m where "m = x - 360 * of_int j0"
  have "\<bar>m + t\<bar> \<le> 1024" using b0 t unfolding m_def by linarith
  from fl_step [OF this] obtain s1 where
    s1: "fl (m + t) = Fin s1" and d1: "\<bar>s1 - (m + t)\<bar> \<le> 1024 / 2 ^ 53"
    and i1: "m + t \<in> \<int> \<longrightarrow> s1 = m + t" by auto
  from mod_360_Fin [of s1] obtain j1 where
    m1: "Fin s1 mod Fin 360 = Fin (s1 - 360 * of_int j1)"
    and b1: "\<bar>s1 - 360 * of_int j1\<bar> < 360" by blast
  define a0 where "a0 = s1 - 360 * of_int j1"
  have "\<bar>a0\<bar> < 10 ^ 21" using b1 by (simp add: a0_def)
  from toFixed_close [OF this, of 9] obtain f1 where
    f1: "toFixed 9 (Fin a0) = Fin f1" and df: "\<bar>f1 - a0\<bar> \<le> 1 / (2 * 10 ^ 9)"
    and ifx: "(\<exists>z::int. a0 * 10 ^ 9 = of_int z) \<longrightarrow> f1 = a0" by blast
  have "(1::real) / (2 * 10 ^ 9) \<le> 1" by simp
  with df b1 have "\<bar>f1\<bar> \<le> 512" unfolding a0_def by linarith
  from fl_step [OF this] obtain a1 where
    a1: "fl f1 = Fin a1" and d2: "\<bar>a1 - f1\<bar> \<le> 512 / 2 ^ 53"
    and i2: "f1 \<in> \<int> \<longrightarrow> a1 = f1" by auto
  have q: "(512::real) / 2 ^ 53 \<le> 1" "(1024::real) / 2 ^ 53 \<le> 1" by simp_all
  with d2 \<open>\<bar>f1\<bar> \<le> 512\<close> have "\<bar>360 - a1\<bar> \<le> 1024" by linarith
  from fl_step [OF this] obtain s2 where
    s2: "fl (360 - a1) = Fin s2" and d3: "\<bar>s2 - (360 - a1)\<bar> \<le> 1024 / 2 ^ 53"
    and i3: "360 - a1 \<in> \<int> \<longrightarrow> s2 = 360 - a1" by auto
  from mod_360_Fin [of s2] obtain j2 where
    m2: "Fin s2 mod Fin 360 = Fin (s2 - 360 * of_int j2)"
    and b2: "\<bar>s2 - 360 * of_int j2\<bar> < 360" by blast
  define a2 where "a2 = s2 - 360 * of_int j2"
  have "\<bar>a2\<bar> \<le> 512" using b2 unfolding a2_def by linarith
  from fl_step [OF this] obtain a3 where
    a3: "fl a2 = Fin a3" and d4: "\<bar>a3 - a2\<bar> \<le> 512 / 2 ^ 53"
    and i4: "a2 \<in> \<int> \<longrightarrow> a3 = a2" by auto
  from d4 q \<open>\<bar>a2\<bar> \<le> 512\<close> x' have "\<bar>x + a3\<bar> \<le> 1048576" by linarith
  then have "\<bar>x + a3\<bar> \<le> 2 ^ 20" by simp
  from fl_step [OF this] obtain R where
    R: "fl (x + a3) = Fin R" and d5: "\<bar>R - (x + a3)\<bar> \<le> 2 ^ 20 / 2 ^ 53"
    and i5: "x + a3 \<in> \<int> \<longrightarrow> R = x + a3" by auto
  define k where "k = 1 + j0 + j1 - j2"
  have c0: "rnd (Fin x mod Fin 360 + Fin t) = Fin s1"
    by (simp add: m0 m_def [symmetric] s1 del: modulo_number.simps)
  have c1: "fixFloat (Fin s1 mod Fin 360) = Fin a1"
    by (simp add: m1 a0_def [symmetric] fixFloat_def f1 a1 del: modulo_number.simps)
  have c2: "rnd (Fin 360 - Fin a1) = Fin s2"
    by (simp add: s2)
  have c3: "rnd (Fin s2 mod Fin 360 * Fin 1) = Fin a3"
    by (simp add: m2 a2_def [symmetric] a3 del: modulo_number.simps)
  have r: "calcWheelRotationForTargetAngle (Fin x) (Fin t) (Fin 1) = Fin R"
    unfolding calcWheelRotationForTargetAngle_def Let_def
    by (simp only: c0 c1 c2 c3 simp_thms if_True) (simp add: R)
  have e: "R + t - 360 * of_int k
      = (R - (x + a3)) + (a3 - a2) + (s2 - (360 - a1)) - (a1 - f1) - (f1 - a0)
        - (s1 - (m + t))"
    by (simp add: k_def a2_def a0_def m_def)
  have "\<bar>R + t - 360 * of_int k\<bar>
      \<le> 2 ^ 20 / 2 ^ 53 + 512 / 2 ^ 53 + 1024 / 2 ^ 53 + 512 / 2 ^ 53 + 1 / (2 * 10 ^ 9)
        + 1024 / 2 ^ 53"
    unfolding e using d1 df d2 d3 d4 d5 by linarith
  then have bound: "\<bar>R + t - 360 * of_int k\<bar> \<le> 1 / (2 * 10 ^ 9) + 1 / 2 ^ 32"
    by simp
  have "(2::real) ^ 20 / 2 ^ 53 \<le> 1" by simp
  have Rb: "\<bar>R\<bar> \<le> 2 ^ 20"
  proof -
    have "\<bar>x + a3\<bar> \<le> 1000513" using d4 q \<open>\<bar>a2\<bar> \<le> 512\<close> x' by linarith
    with d5 \<open>(2::real) ^ 20 / 2 ^ 53 \<le> 1\<close> have "\<bar>R\<bar> \<le> 1048576" by linarith
    then show ?thesis by simp
  qed
  have exact: "R \<in> \<int> \<and> R + t = 360 * of_int k" if "x \<in> \<int> \<and> t \<in> \<int>"
  proof -
    from that have xi: "x \<in> \<int>" and ti: "t \<in> \<int>" by simp_all
    have mi: "m \<in> \<int>" unfolding m_def using xi by (intro Ints_diff Ints_mult) simp_all
    then have "m + t \<in> \<int>" using ti by (rule Ints_add)
    with i1 have e1: "s1 = m + t" and s1i: "s1 \<in> \<int>" by simp_all
    have a0i: "a0 \<in> \<int>" unfolding a0_def using s1i by (intro Ints_diff Ints_mult) simp_all
    then obtain z :: int where "a0 = of_int z" by (auto elim: Ints_cases)
    then have "a0 * 10 ^ 9 = of_int (z * 10 ^ 9)" by simp
    then have "\<exists>z::int. a0 * 10 ^ 9 = of_int z" by blast
    with ifx have e2: "f1 = a0" by blast
    with a0i i2 have e3: "a1 = f1" and a1i: "a1 \<in> \<int>" by simp_all
    have "360 - a1 \<in> \<int>" using a1i by (intro Ints_diff) simp_all
    with i3 have e4: "s2 = 360 - a1" and s2i: "s2 \<in> \<int>" by simp_all
    have a2i: "a2 \<in> \<int>" unfolding a2_def using s2i by (intro Ints_diff Ints_mult) simp_all
    with i4 have e5: "a3 = a2" and a3i: "a3 \<in> \<int>" by simp_all
    have "x + a3 \<in> \<int>" using xi a3i by (rule Ints_add)
    with i5 have e6: "R = x + a3" and Ri: "R \<in> \<int>" by simp_all
    from e have "R + t - 360 * of_int k = 0"
      by (simp only: e1 e2 e3 e4 e5 e6)
    with Ri show ?thesis by simp
  qed
  from r Rb bound exact show ?thesis by blast
qed

text \<open>
  C5. For a starting rotation \<open>x\<close> of magnitude at most \<open>10^6\<close>, \<open>spinToItem\<close> to the
  centre of an item whose slice is \<open>[0, 90)\<close>, with direction 1, no revolution and the
  pointer at 0, sets a target rotation \<open>R\<close> at which the centre of the item, \<open>R + 45\<close>,
  is the pointer angle up to whole turns within \<open>10^-9\<close>: half a unit of the ninth
  decimal from \<open>fixFloat\<close> and the rounding of each sum to a double. It is exactly
  so when \<open>x\<close> is a whole number.
\<close>

theorem spinToItem_centre_at_pointer:
  assumes i: "i < length (items w)"
    and slice: "getItemAngles_rnd (Fin 0) (items w) ! i = \<lparr>a_start = Fin 0, a_end = Fin 90\<rparr>"
    and ptr: "pointerAngle w = Fin 0"
    and rot: "rotation w = Fin x"
    and x: "\<bar>x\<bar> \<le> 10 ^ 6"
  shows "\<exists>w' R k.
      spinToItem (int i) duration True (Fin 0) (Fin 1) easingFunction random t w = Inr w'
    \<and> getCenterAngle i (items w) = Fin 45
    \<and> spinToEndRotation w' = Fin R
    \<and> spinToTimeEnd w' = Some (t + duration)
    \<and> items w' = items w
    \<and> \<bar>R + 45 - 360 * of_int k\<bar> \<le> 1 / 10 ^ 9
    \<and> (x \<in> \<int> \<longrightarrow> R + 45 = 360 * of_int k)"
proof -
  have centre: "getCenterAngle i (items w) = Fin 45"
    by (simp add: getCenterAngle_def Let_def slice)
  have "\<bar>45::real\<bar> \<le> 360" by simp
  from calc_clockwise [OF x this] obtain R0 k where
    c: "calcWheelRotationForTargetAngle (Fin x) (Fin 45) (Fin 1) = Fin R0"
    and b0: "\<bar>R0\<bar> \<le> 2 ^ 20"
    and b: "\<bar>R0 + 45 - 360 * of_int k\<bar> \<le> 1 / (2 * 10 ^ 9) + 1 / 2 ^ 32"
    and e: "x \<in> \<int> \<and> 45 \<in> (\<int> :: real set) \<longrightarrow> R0 \<in> \<int> \<and> R0 + 45 = 360 * of_int k"
    by blast
  from fl_step [OF b0] obtain R where
    R: "fl R0 = Fin R" and d: "\<bar>R - R0\<bar> \<le> 2 ^ 20 / 2 ^ 53"
    and ex: "R0 \<in> \<int> \<longrightarrow> R = R0" by auto
  define w2 where "w2 = (stop w)\<lparr>dragEvents := []\<rparr>"
  have w2: "items w2 = items w" "rotation w2 = Fin x" "pointerAngle w2 = Fin 0"
    using rot ptr by (simp_all add: w2_def stop_def rotation_def pointerAngle_def)
  define w3 where "w3 = animate (Fin R) duration easingFunction t w2"
  define w' where "w' = raiseEvent_onSpin
                      [(''method'', JStr ''spintoitem''),
                       (''targetItemIndex'', JNum (Fin (of_int (int i)))),
                       (''targetRotation'', JNum (Fin R)),
                       (''duration'', JNum duration)] w3"
  have rot': "to_number (props w W_rotation) = Fin x" using rot by (simp add: rotation_def)
  have ptr': "to_number (props w W_pointerAngle) = Fin 0" using ptr by (simp add: pointerAngle_def)
  have s: "spinToItem (int i) duration True (Fin 0) (Fin 1) easingFunction random t w = Inr w'"
    using i
    by (simp add: spinToItem_def Let_def centre c R w3_def w'_def w2_def stop_def
          rotation_def pointerAngle_def rot' ptr')
  have f: "spinToEndRotation w' = Fin R" "spinToTimeEnd w' = Some (t + duration)"
    "items w' = items w"
    using w2 by (simp_all add: w'_def raiseEvent_onSpin_def w3_def animate_def)
  have "R + 45 - 360 * of_int k = (R - R0) + (R0 + 45 - 360 * of_int k)" by simp
  then have "\<bar>R + 45 - 360 * of_int k\<bar>
      \<le> 2 ^ 20 / 2 ^ 53 + (1 / (2 * 10 ^ 9) + 1 / 2 ^ 32)"
    using d b by linarith
  then have bound: "\<bar>R + 45 - 360 * of_int k\<bar> \<le> 1 / 10 ^ 9" by simp
  have exact: "R + 45 = 360 * of_int k" if "x \<in> \<int>"
  proof -
    from that e have "R0 \<in> \<int>" and "R0 + 45 = 360 * of_int k" by simp_all
    with ex show ?thesis by simp
  qed
  show ?thesis
    using s centre f bound exact by (intro exI [of _ w'] exI [of _ R] exI [of _ k]) simp
qed

theorem spinToItem_centre_at_pointer_witness:
  "\<exists>w'. spinToItem 0 (Fin 1000) True (Fin 0) (Fin 1) None (Fin 0) (Fin 0)
           (blank_wheel\<lparr>props := (props blank_wheel)(W_rotation := JNum (Fin 10)),
              items := [new_Item [(''weight'', JNum (Fin 1))], new_Item [(''weight'', JNum (Fin 1))],
                        new_Item [(''weight'', JNum (Fin 1))], new_Item [(''weight'', JNum (Fin 1))]]\<rparr>)
         = Inr w'
     \<and> spinToEndRotation w' = Fin 315"
proof -
  define its where "its =
     [new_Item [(''weight'', JNum (Fin 1))], new_Item [(''weight'', JNum (Fin 1))],
      new_Item [(''weight'', JNum (Fin 1))], new_Item [(''weight'', JNum (Fin 1))]]"
  define W where "W = blank_wheel\<lparr>props := (props blank_wheel)(W_rotation := JNum (Fin 10)),
              items := its\<rparr>"
  have wt: "map weight its = map Fin [1, 1, 1, 1]"
    by (simp add: its_def weight_new_Item field_def)
  have h3: "0 < length (items W)" by (simp add: W_def its_def)
  have g0: "getItemAngles_rnd (Fin 0) its ! 0 = \<lparr>a_start = Fin 0, a_end = Fin 90\<rparr>"
    using wt by (simp add: its_def getItemAngles_rnd_def Let_def)
  have h4: "getItemAngles_rnd (Fin 0) (items W) ! 0 = \<lparr>a_start = Fin 0, a_end = Fin 90\<rparr>"
    using g0 by (simp add: W_def)
  have h5: "pointerAngle W = Fin 0" by (simp add: W_def pointerAngle_def blank_wheel_def)
  have h6: "rotation W = Fin 10" by (simp add: W_def rotation_def)
  have h7: "\<bar>10::real\<bar> \<le> 10 ^ 6" by simp
  from spinToItem_centre_at_pointer [OF h3 h4 h5 h6 h7, of "Fin 1000" None "Fin 0" "Fin 0"]
  obtain w' R k where
    a: "spinToItem (int 0) (Fin 1000) True (Fin 0) (Fin 1) None (Fin 0) (Fin 0) W = Inr w'"
    and b: "spinToEndRotation w' = Fin R"
    by blast
  have c: "calcWheelRotationForTargetAngle (Fin 10) (Fin 45) (Fin 1) = Fin 315"
    by (simp add: calcWheelRotationForTargetAngle_def Let_def fixFloat_def toFixed_def trunc_def
          round_def)
  have centre: "getCenterAngle 0 its = Fin 45"
    by (simp add: getCenterAngle_def Let_def g0)
  have "\<exists>v. spinToItem 0 (Fin 1000) True (Fin 0) (Fin 1) None (Fin 0) (Fin 0) W = Inr v
          \<and> spinToEndRotation v = Fin 315"
    by (simp add: spinToItem_def Let_def W_def stop_def rotation_def pointerAngle_def
          blank_wheel_def centre c animate_def raiseEvent_onSpin_def call_handler_def)
       (simp add: its_def)
  with a b have "R = 315" by auto
  with a b show ?thesis unfolding W_def its_def by auto
qed

text \<open>
  At the rotation \<open>2^53\<close> the doubles are two apart: the target \<open>2^53 + 283\<close> rounds to
  \<open>2^53 + 284\<close>, and the centre of the item comes to rest one degree past the pointer.
\<close>

theorem spinToItem_centre_at_pointer_counterexample:
  "map_sum fst spinToEndRotation
     (spinToItem 0 (Fin 1000) True (Fin 0) (Fin 1) None (Fin 0) (Fin 0)
        (blank_wheel\<lparr>props := (props blank_wheel)(W_rotation := JNum (Fin (2 ^ 53))),
           items := [new_Item [(''weight'', JNum (Fin 1))], new_Item [(''weight'', JNum (Fin 1))],
                     new_Item [(''weight'', JNum (Fin 1))], new_Item [(''weight'', JNum (Fin 1))]]\<rparr>))
     = Inr (Fin (2 ^ 53 + 284))
   \<and> getCenterAngle 0
         [new_Item [(''weight'', JNum (Fin 1))], new_Item [(''weight'', JNum (Fin 1))],
          new_Item [(''weight'', JNum (Fin 1))], new_Item [(''weight'', JNum (Fin 1))]] = Fin 45
   \<and> Fin (2 ^ 53 + 284 + 45) mod Fin 360 = Fin 1"
proof -
  define its where "its =
     [new_Item [(''weight'', JNum (Fin 1))], new_Item [(''weight'', JNum (Fin 1))],
      new_Item [(''weight'', JNum (Fin 1))], new_Item [(''weight'', JNum (Fin 1))]]"
  have wt: "map weight its = map Fin [1, 1, 1, 1]"
    by (simp add: its_def weight_new_Item field_def)
  have g0: "getItemAngles_rnd (Fin 0) its ! 0 = \<lparr>a_start = Fin 0, a_end = Fin 90\<rparr>"
    using wt by (simp add: its_def getItemAngles_rnd_def Let_def)
  have centre: "getCenterAngle 0 its = Fin 45"
    by (simp add: getCenterAngle_def Let_def g0)
  have f1: "fl 9007199254741275 = Fin 9007199254741276"
    by (rule fl_at [where e = 53]) (simp_all add: round_even_def Let_def)
  have f2: "fl 9007199254741276 = Fin 9007199254741276"
    by (rule fl_at [where e = 53]) (simp_all add: round_even_def Let_def)
  have c: "calcWheelRotationForTargetAngle (Fin 9007199254740992) (Fin 45) (Fin 1)
             = Fin 9007199254741276"
    by (simp add: calcWheelRotationForTargetAngle_def Let_def fixFloat_def toFixed_def trunc_def
          round_def f1)
  have s: "map_sum fst spinToEndRotation
     (spinToItem 0 (Fin 1000) True (Fin 0) (Fin 1) None (Fin 0) (Fin 0)
        (blank_wheel\<lparr>props := (props blank_wheel)(W_rotation := JNum (Fin 9007199254740992)),
           items := its\<rparr>))
     = Inr (Fin 9007199254741276)"
    by (simp add: spinToItem_def Let_def stop_def rotation_def pointerAngle_def
          blank_wheel_def centre c f2 animate_def raiseEvent_onSpin_def call_handler_def)
       (simp add: its_def)
  have m: "Fin (9007199254741276 + 45) mod Fin 360 = Fin 1"
    by (simp add: trunc_def)
  from s centre m show ?thesis unfolding its_def by simp
qed

section \<open>The setters\<close>

lemma props_refreshCurrentIndex [simp]: "props (refreshCurrentIndex angles w) = props w"
proof -
  from refreshCurrentIndex_shape [of angles w] obtain ci cs where
    "refreshCurrentIndex angles w = w\<lparr>currentIndex := ci, calls := calls w @ cs\<rparr>" by blast
  then show ?thesis by simp
qed

lemma props_wheel_after [simp]: "props (wheel_after p w) = props w"
  by (cases p) simp_all

lemma wheel_isValid_Undefined [simp]: "\<not> wheel_isValid p Undefined"
  by (cases p) (simp_all add: isObject_def)

lemma set_prop_invalid:
  "val \<noteq> Undefined \<Longrightarrow> \<not> wheel_isValid p val \<Longrightarrow>
   set_prop p val w = Inl (wheel_errorMessage p, w)"
  by (simp add: set_prop_def setProp_def)

lemma set_prop_Undefined:
  "set_prop p Undefined w = Inr (wheel_after p (w\<lparr>props := (props w)(p := Defaults_wheel p)\<rparr>))"
  by (simp add: set_prop_def setProp_def)

lemma set_prop_valid:
  "wheel_isValid p val \<Longrightarrow>
   set_prop p val w = Inr (wheel_after p (w\<lparr>props := (props w)(p := wheel_action p val)\<rparr>))"
  by (simp add: set_prop_def setProp_def)

text \<open>
  C9, as the code has it. For every property of the wheel, assigning a value that
  is defined and not valid for the property throws the message of the property
  and leaves the wheel as it was; assigning \<open>undefined\<close> stores the default, and a
  valid value is stored as the setter's action returns it. The setters of an Item
  never throw: a value that fails the test of the setter, defined or not, is
  replaced by the default of the property, a value that passes is stored, and no
  other property of the item changes.
\<close>

theorem setters_invalid_values:
  "(val \<noteq> Undefined \<and> \<not> wheel_isValid p val \<longrightarrow>
      set_prop p val w = Inl (wheel_errorMessage p, w))
   \<and> (\<exists>w'. set_prop p Undefined w = Inr w' \<and> props w' p = Defaults_wheel p)
   \<and> (wheel_isValid p val \<longrightarrow>
        (\<exists>w'. set_prop p val w = Inr w' \<and> props w' p = wheel_action p val))
   \<and> (val \<noteq> Undefined \<and> \<not> isArray val \<longrightarrow>
        set_items val w = Inl (''Wheel.items must be an array of Items'', w))
   \<and> (\<exists>w'. set_items Undefined w = Inr w' \<and> items w' = [])
   \<and> (\<not> item_accepts q val \<longrightarrow> Item_set q val it q = Defaults_item q)
   \<and> (item_accepts q val \<longrightarrow>
        Item_set q val it q = (if q = I_image then newImage val else val))
   \<and> (\<forall>q'. q' \<noteq> q \<longrightarrow> Item_set q val it q' = it q')"
proof -
  have a: "val \<noteq> Undefined \<and> \<not> wheel_isValid p val \<longrightarrow>
      set_prop p val w = Inl (wheel_errorMessage p, w)"
    by (simp add: set_prop_invalid)
  have b: "\<exists>w'. set_prop p Undefined w = Inr w' \<and> props w' p = Defaults_wheel p"
    by (simp add: set_prop_Undefined)
  have c: "wheel_isValid p val \<longrightarrow>
        (\<exists>w'. set_prop p val w = Inr w' \<and> props w' p = wheel_action p val)"
    by (simp add: set_prop_valid)
  have d: "val \<noteq> Undefined \<and> \<not> isArray val \<longrightarrow>
        set_items val w = Inl (''Wheel.items must be an array of Items'', w)"
    by (simp add: set_items_def setProp_def)
  from refreshCurrentIndex_shape [of "getItemAngles (rotation w) []" "w\<lparr>items := []\<rparr>"]
  obtain ci cs where "refreshCurrentIndex (getItemAngles (rotation w) []) (w\<lparr>items := []\<rparr>)
      = w\<lparr>items := [], currentIndex := ci, calls := calls w @ cs\<rparr>"
    by auto
  then have e: "\<exists>w'. set_items Undefined w = Inr w' \<and> items w' = []"
    by (simp add: set_items_def setProp_def Let_def)
  have f: "\<not> item_accepts q val \<longrightarrow> Item_set q val it q = Defaults_item q"
    by (simp add: Item_set_def)
  have g: "item_accepts q val \<longrightarrow>
        Item_set q val it q = (if q = I_image then newImage val else val)"
    by (simp add: Item_set_def)
  have h: "\<forall>q'. q' \<noteq> q \<longrightarrow> Item_set q val it q' = it q'"
    by (simp add: Item_set_def)
  show ?thesis
    using a b c d e f g h by (intro conjI) assumption+
qed

theorem setters_invalid_values_witness:
  "set_prop W_borderColor (JNum (Fin 5)) blank_wheel
     = Inl (''Wheel.borderColor must be a string'', blank_wheel)
   \<and> set_prop W_borderColor (JStr ''red'') blank_wheel
     = Inr (blank_wheel\<lparr>props := (props blank_wheel)(W_borderColor := JStr ''red'')\<rparr>)
   \<and> Item_set I_weight Null (new_Item [(''weight'', JNum (Fin 5))]) I_weight = JNum (Fin 1)"
proof -
  have h1: "JNum (Fin 5) \<noteq> Undefined \<and> \<not> wheel_isValid W_borderColor (JNum (Fin 5))" by simp
  have h2: "\<not> item_accepts I_weight Null" by simp
  have v: "set_prop W_borderColor (JStr ''red'') blank_wheel
     = Inr (blank_wheel\<lparr>props := (props blank_wheel)(W_borderColor := JStr ''red'')\<rparr>)"
    by (simp add: set_prop_def setProp_def)
  from setters_invalid_values [of "JNum (Fin 5)" W_borderColor blank_wheel]
       setters_invalid_values [of Null _ _ I_weight "new_Item [(''weight'', JNum (Fin 5))]"]
       h1 h2 v
  show ?thesis by simp
qed

text \<open>
  C9 as stated fails for an Item: assigning the string \<open>heavy\<close>, defined and not a
  number, to the weight of an item of weight 5 throws nothing and leaves the
  weight at the default 1.
\<close>

theorem setters_invalid_values_counterexample:
  "JStr ''heavy'' \<noteq> Undefined
   \<and> weight (new_Item [(''weight'', JNum (Fin 5))]) = Fin 5
   \<and> weight (Item_set I_weight (JStr ''heavy'') (new_Item [(''weight'', JNum (Fin 5))])) = Fin 1"
  by (simp add: weight_def Item_set_def new_Item_def Item_init_def field_def)

lemma not_le_zero_number: "n \<noteq> NaN \<Longrightarrow> (\<not> Fin 0 \<le> n) = (n < Fin 0)"
  by (cases n) (auto simp add: less_eq_number_def)

lemma pointerAngle_invalid:
  "(\<not> wheel_isValid W_pointerAngle val) = (\<not> isNumber val \<or> to_number val < Fin 0)"
proof (cases val)
  case (JNum n)
  then show ?thesis by (cases "n = NaN") (simp_all add: not_le_zero_number)
qed simp_all

text \<open>
  C10, as the code has it. Setting \<open>pointerAngle\<close> throws exactly when the value is
  defined and is not a number or is negative, and then the wheel is as it was;
  \<open>undefined\<close> stores the default 0; every finite number \<open>x\<close> that is not negative
  is stored modulo 360, a number of \<open>[0, 360)\<close>.
\<close>

theorem pointerAngle_setter:
  "(isl (set_prop W_pointerAngle val w)
      \<longleftrightarrow> val \<noteq> Undefined \<and> (\<not> isNumber val \<or> to_number val < Fin 0))
   \<and> (isl (set_prop W_pointerAngle val w) \<longrightarrow>
        set_prop W_pointerAngle val w
          = Inl (''Wheel.pointerAngle must be a number between 0 and 360'', w))
   \<and> (val = Undefined \<longrightarrow>
        set_prop W_pointerAngle val w
          = Inr (w\<lparr>props := (props w)(W_pointerAngle := JNum (Fin 0))\<rparr>))
   \<and> (\<forall>x. val = JNum (Fin x) \<and> 0 \<le> x \<longrightarrow>
        set_prop W_pointerAngle val w
          = Inr (w\<lparr>props := (props w)
                   (W_pointerAngle := JNum (Fin (x - 360 * of_int \<lfloor>x / 360\<rfloor>)))\<rparr>)
        \<and> 0 \<le> x - 360 * of_int \<lfloor>x / 360\<rfloor> \<and> x - 360 * of_int \<lfloor>x / 360\<rfloor> < 360)"
proof -
  have a: "isl (set_prop W_pointerAngle val w)
      \<longleftrightarrow> val \<noteq> Undefined \<and> (\<not> isNumber val \<or> to_number val < Fin 0)"
    unfolding pointerAngle_invalid [symmetric]
    by (simp add: set_prop_def setProp_def)
  have b: "isl (set_prop W_pointerAngle val w) \<longrightarrow>
        set_prop W_pointerAngle val w
          = Inl (''Wheel.pointerAngle must be a number between 0 and 360'', w)"
    by (simp add: set_prop_def setProp_def)
  have c: "val = Undefined \<longrightarrow>
        set_prop W_pointerAngle val w
          = Inr (w\<lparr>props := (props w)(W_pointerAngle := JNum (Fin 0))\<rparr>)"
    by (simp add: set_prop_def setProp_def)
  have d: "set_prop W_pointerAngle val w
          = Inr (w\<lparr>props := (props w)
                   (W_pointerAngle := JNum (Fin (x - 360 * of_int \<lfloor>x / 360\<rfloor>)))\<rparr>)
        \<and> 0 \<le> x - 360 * of_int \<lfloor>x / 360\<rfloor> \<and> x - 360 * of_int \<lfloor>x / 360\<rfloor> < 360"
    if "val = JNum (Fin x) \<and> 0 \<le> x" for x
  proof -
    from that have "trunc (x / 360) = \<lfloor>x / 360\<rfloor>" by (simp add: trunc_def)
    with that wrap_range [of x] show ?thesis
      by (simp add: set_prop_def setProp_def)
  qed
  from a b c d show ?thesis by blast
qed

theorem pointerAngle_setter_witness:
  "set_prop W_pointerAngle (JNum (Fin 370)) blank_wheel
     = Inr (blank_wheel\<lparr>props := (props blank_wheel)(W_pointerAngle := JNum (Fin 10))\<rparr>)
   \<and> set_prop W_pointerAngle (JNum (Fin (- 1))) blank_wheel
     = Inl (''Wheel.pointerAngle must be a number between 0 and 360'', blank_wheel)"
proof -
  have h1: "JNum (Fin 370) = JNum (Fin 370) \<and> (0::real) \<le> 370" by simp
  have h2: "JNum (Fin (- 1)) \<noteq> Undefined
            \<and> (\<not> isNumber (JNum (Fin (- 1))) \<or> to_number (JNum (Fin (- 1))) < Fin 0)" by simp
  from pointerAngle_setter [of "JNum (Fin 370)" blank_wheel]
       pointerAngle_setter [of "JNum (Fin (- 1))" blank_wheel] h1 h2
  show ?thesis by simp
qed

text \<open>
  C10 as stated fails: \<open>undefined\<close> is not a number and setting it does not throw;
  and \<open>Infinity\<close> is a number that is not negative, which is stored as \<open>NaN\<close>,
  outside \<open>[0, 360)\<close>.
\<close>

theorem pointerAngle_setter_counterexample:
  "\<not> isNumber Undefined
   \<and> \<not> isl (set_prop W_pointerAngle Undefined blank_wheel)
   \<and> set_prop W_pointerAngle (JNum PosInf) blank_wheel
       = Inr (blank_wheel\<lparr>props := (props blank_wheel)(W_pointerAngle := JNum NaN)\<rparr>)"
  by (simp add: set_prop_def setProp_def less_eq_number_def)

end
